theory Spec2Isabelle
  imports Main "HOL-Library.Word"
begin

section \<open>Values shared by the three packages\<close>

type_synonym bytes = "8 word list"

text \<open>
  Go's \<open>error\<close> values. The sentinel errors of package \<open>constants\<close> are constructors of
  their own; \<open>HandlerNotFound\<close> and \<open>DuplicatedRoute\<close> are the two \<open>fmt.Errorf\<close> values
  built in the code, kept with the arguments they are formatted from; \<open>PitayaError\<close> is
  the struct \<open>errors.Error {Code, Message, Metadata}\<close>; \<open>OtherError\<close> is any error that
  comes from outside (a hook, a handler, the serializer, the transport).
\<close>

datatype error =
    ErrRequestOnNotify
  | ErrNotifyOnRequest
  | ErrNoBindingStorageModule
  | ErrNoConnectionToServer
  | ErrNotImplemented
  | errInvalidMsg
  | HandlerNotFound string
  | DuplicatedRoute string "16 word"
  | PitayaError string string "string \<rightharpoonup> string"
  | OtherError string

section \<open>Route dictionary (package message)\<close>

text \<open>
  \<open>type Type byte\<close> with its four constants.
\<close>

type_synonym Type = "8 word"

definition Request :: Type where "Request = 0x00"
definition Notify :: Type where "Notify = 0x01"
definition Response :: Type where "Response = 0x02"
definition Push :: Type where "Push = 0x03"

text \<open>
  The two package-level maps \<open>routes\<close> and \<open>codes\<close>.
\<close>

record dictionary =
  routes :: "string \<rightharpoonup> 16 word"
  codes :: "16 word \<rightharpoonup> string"

definition no_dictionary :: dictionary where
  "no_dictionary = \<lparr>routes = Map.empty, codes = Map.empty\<rparr>"

text \<open>
  \<open>strings.TrimSpace\<close> of the Go library: it removes from both ends of the string every
  rune for which \<open>unicode.IsSpace\<close> holds. A string is its bytes, read as UTF-8 the way
  the library reads them: \<open>utf8.DecodeRuneInString\<close> gives the first rune and its width,
  \<open>utf8.DecodeLastRuneInString\<close> the last one, and a byte that does not start (or end) a
  well-formed encoding is the rune \<open>RuneError\<close> of width 1. Runes are code points, bytes
  are numbers below 256.
\<close>

definition RuneError :: nat where
  "RuneError = 0xFFFD"

text \<open>
  \<open>unicode.IsSpace\<close>: the runes with Unicode's White Space property.
\<close>

definition IsSpace :: "nat \<Rightarrow> bool" where
  "IsSpace r = ((0x0009 \<le> r \<and> r \<le> 0x000D) \<or> r = 0x0020 \<or> r = 0x0085 \<or> r = 0x00A0
     \<or> r = 0x1680 \<or> (0x2000 \<le> r \<and> r \<le> 0x200A) \<or> r = 0x2028 \<or> r = 0x2029
     \<or> r = 0x202F \<or> r = 0x205F \<or> r = 0x3000)"

definition continuation :: "nat \<Rightarrow> bool" where
  "continuation b = (0x80 \<le> b \<and> b \<le> 0xBF)"

definition RuneStart :: "nat \<Rightarrow> bool" where
  "RuneStart b = (\<not> continuation b)"

definition DecodeRuneInString :: "nat list \<Rightarrow> nat \<times> nat" where
  "DecodeRuneInString s =
     (case s of
        [] \<Rightarrow> (RuneError, 0)
      | b0 # bs \<Rightarrow>
          if b0 < 0x80 then (b0, 1)
          else if 0xC2 \<le> b0 \<and> b0 \<le> 0xDF then
            (case bs of
               b1 # _ \<Rightarrow>
                 if continuation b1 then ((b0 - 0xC0) * 64 + (b1 - 0x80), 2)
                 else (RuneError, 1)
             | _ \<Rightarrow> (RuneError, 1))
          else if 0xE0 \<le> b0 \<and> b0 \<le> 0xEF then
            (case bs of
               b1 # b2 # _ \<Rightarrow>
                 if (if b0 = 0xE0 then 0xA0 else 0x80) \<le> b1
                    \<and> b1 \<le> (if b0 = 0xED then 0x9F else 0xBF) \<and> continuation b2
                 then ((b0 - 0xE0) * 4096 + (b1 - 0x80) * 64 + (b2 - 0x80), 3)
                 else (RuneError, 1)
             | _ \<Rightarrow> (RuneError, 1))
          else if 0xF0 \<le> b0 \<and> b0 \<le> 0xF4 then
            (case bs of
               b1 # b2 # b3 # _ \<Rightarrow>
                 if (if b0 = 0xF0 then 0x90 else 0x80) \<le> b1
                    \<and> b1 \<le> (if b0 = 0xF4 then 0x8F else 0xBF)
                    \<and> continuation b2 \<and> continuation b3
                 then ((b0 - 0xF0) * 262144 + (b1 - 0x80) * 4096 + (b2 - 0x80) * 64
                         + (b3 - 0x80), 4)
                 else (RuneError, 1)
             | _ \<Rightarrow> (RuneError, 1))
          else (RuneError, 1))"

text \<open>
  \<open>utf8.DecodeLastRuneInString\<close>: an ASCII last byte is the rune; otherwise the rune is
  looked for from the nearest byte that can start one, at most three bytes before the
  last (one byte further back, or the start of the string, when there is none), and it
  counts only when it ends where the string ends.
\<close>

definition DecodeLastRuneInString :: "nat list \<Rightarrow> nat \<times> nat" where
  "DecodeLastRuneInString bs =
     (let stop = length bs in
      if stop = 0 then (RuneError, 0)
      else if bs ! (stop - 1) < 0x80 then (bs ! (stop - 1), 1)
      else
        (let lim = stop - 4;
             start = (case find (\<lambda>p. RuneStart (bs ! p)) (rev [lim..<stop - 1]) of
                        Some p \<Rightarrow> p
                      | None \<Rightarrow> lim - 1)
         in case DecodeRuneInString (drop start bs) of
              (r, width) \<Rightarrow> if start + width \<noteq> stop then (RuneError, 1) else (r, width)))"

text \<open>
  \<open>strings.TrimLeftFunc\<close> and \<open>strings.TrimRightFunc\<close> with \<open>unicode.IsSpace\<close>: runes are
  taken off one end for as long as they are white space.
\<close>

function TrimLeftSpace :: "string \<Rightarrow> string" where
  "TrimLeftSpace s =
     (case DecodeRuneInString (map of_char s) of
        (r, width) \<Rightarrow> if 0 < width \<and> IsSpace r then TrimLeftSpace (drop width s) else s)"
  by pat_completeness auto
termination
  apply (relation "measure length")
   apply simp
  apply (case_tac "s = []")
   apply (simp_all add: DecodeRuneInString_def)
  done

function TrimRightSpace :: "string \<Rightarrow> string" where
  "TrimRightSpace s =
     (case DecodeLastRuneInString (map of_char s) of
        (r, width) \<Rightarrow>
          if 0 < width \<and> IsSpace r then TrimRightSpace (take (length s - width) s) else s)"
  by pat_completeness auto
termination
  apply (relation "measure length")
   apply simp
  apply (case_tac "s = []")
   apply (simp_all add: DecodeLastRuneInString_def)
  done

definition TrimSpace :: "string \<Rightarrow> string" where
  "TrimSpace s = TrimRightSpace (TrimLeftSpace s)"

text \<open>
  The body of \<open>for route, code := range dict\<close>. The list is the map's entries in the
  order in which this run of the loop visits them (Go leaves the order open, so the
  theorems hold for every order). The maps are updated entry by entry, and a duplicate
  returns at once with the maps as they are at that moment.
\<close>

fun SetDictionary_range :: "(string \<times> 16 word) list \<Rightarrow> dictionary \<Rightarrow> error option \<times> dictionary" where
  "SetDictionary_range [] d = (None, d)"
| "SetDictionary_range ((route, code) # rest) d =
     (let r = TrimSpace route in
      if routes d r \<noteq> None then (Some (DuplicatedRoute r code), d)
      else if codes d code \<noteq> None then (Some (DuplicatedRoute r code), d)
      else SetDictionary_range rest
             (d\<lparr>routes := (routes d)(r \<mapsto> code), codes := (codes d)(code \<mapsto> r)\<rparr>))"

text \<open>
  \<open>SetDictionary\<close>: a nil map (\<open>None\<close>) returns nil at once.
\<close>

definition SetDictionary :: "(string \<times> 16 word) list option \<Rightarrow> dictionary \<Rightarrow> error option \<times> dictionary" where
  "SetDictionary dict d =
     (case dict of None \<Rightarrow> (None, d) | Some entries \<Rightarrow> SetDictionary_range entries d)"

section \<open>Handlers and the dispatch of a message (packages component and service)\<close>

text \<open>
  A value of type \<open>interface{}\<close> as the dispatch sees it: nil, raw bytes, or a pointer to
  a decoded or serializable object.
\<close>

datatype 'a val = Nil | Bytes bytes | Ptr 'a

record Session =
  ID :: "64 word"
  UID :: string

record Route =
  SvType :: string
  Service :: string
  Method :: string

text \<open>
  Modelled from the spec: package \<open>route\<close> is not under src/. A route is
  \<open>serverType.serviceName.methodName\<close> with the server type optional, and the registry
  keys on \<open>serviceName.methodName\<close>.
\<close>

definition Route_Short :: "Route \<Rightarrow> string" where
  "Route_Short rt = Service rt @ ''.'' @ Route.Method rt"

definition Route_String :: "Route \<Rightarrow> string" where
  "Route_String rt =
     (if SvType rt \<noteq> [] then SvType rt @ ''.'' @ Route_Short rt else Route_Short rt)"

text \<open>
  The context handed to hooks and handler: the caller's context (\<open>None\<close> is nil, replaced
  by \<open>context.Background()\<close>), the session stored under \<open>constants.SessionCtxKey\<close> and the
  default logger, bound to the route string and the user id.
\<close>

record 'c Context =
  parent :: "'c option"
  SessionCtxKey :: Session
  LoggerCtxKey :: "string \<times> string"

text \<open>
  The serializer is an interface implemented outside: \<open>Unmarshal\<close> takes the payload and
  the name of the type of the fresh instance and gives the filled instance.
\<close>

record 'a Serializer =
  Unmarshal :: "bytes \<Rightarrow> string \<Rightarrow> error + 'a"
  Marshal :: "'a val \<Rightarrow> error + bytes"

text \<open>
  \<open>component.Handler\<close>. \<open>Type\<close> is the declared type of the argument (\<open>None\<close> is nil).
  \<open>Method\<close> stands for \<open>util.Pcall(h.Method, args)\<close> with the receiver bound: it takes the
  context and the rest of \<open>args\<close> and gives the pair \<open>(resp, err)\<close>.
\<close>

record ('a, 'c) Handler =
  IsRawArg :: bool
  Type :: "string option"
  MessageType :: Type
  Method :: "'c Context \<Rightarrow> 'a val list \<Rightarrow> 'a val \<times> error option"

text \<open>
  What the dispatch reads from other packages: the table \<open>handlers\<close>, the two hook chains
  \<open>pipeline.BeforeHandler.Handlers\<close> and \<open>pipeline.AfterHandler.Handlers\<close>, and the
  functions and constants of packages \<open>util\<close> and \<open>errors\<close> that are not under src/,
  taken as parameters.
\<close>

record ('a, 'c) env =
  handlers :: "string \<rightharpoonup> ('a, 'c) Handler"
  BeforeHandler :: "('c Context \<Rightarrow> 'a val \<Rightarrow> 'a val \<times> error option) list"
  AfterHandler :: "('c Context \<Rightarrow> 'a val \<Rightarrow> error option \<Rightarrow> 'a val \<times> error option) list"
  ConvertProtoToMessageType :: "32 word \<Rightarrow> Type"
  NewError :: "error \<Rightarrow> string \<Rightarrow> error"
  ErrNotFoundCode :: string
  ErrInternalCode :: string
  ErrBadRequestCode :: string
  GetErrorPayload :: "'a Serializer \<Rightarrow> error \<Rightarrow> error + bytes"

text \<open>
  What a dispatch does besides returning: the log lines it writes and the calls it makes
  to user code, in order. The number in \<open>CallBefore\<close> and \<open>CallAfter\<close> is the position of
  the hook in its chain.
\<close>

datatype 'a event =
    Warnf_invalid_message_type error
  | Debugf_broken_pipeline error
  | Debugf_SID_Data "64 word" bytes
  | Errorf_failed_to_serialize error
  | Error_cannot_serialize error
  | CallBefore nat "'a val"
  | CallMethod "'a val list"
  | CallAfter nat "'a val" "error option"

definition ValidateMessageType :: "('a, 'c) Handler \<Rightarrow> Type \<Rightarrow> bool \<times> error option" where
  "ValidateMessageType h msgType =
     (if MessageType h \<noteq> msgType then
        (if msgType = Request then (True, Some ErrRequestOnNotify)
         else if msgType = Notify then (False, Some ErrNotifyOnRequest)
         else (False, None))
      else (False, None))"

definition getHandler :: "('a, 'c) env \<Rightarrow> Route \<Rightarrow> error + ('a, 'c) Handler" where
  "getHandler E rt =
     (case handlers E (Route_Short rt) of
        None \<Rightarrow> Inl (HandlerNotFound (Route_String rt))
      | Some handler \<Rightarrow> Inr handler)"

definition unmarshalHandlerArg :: "('a, 'c) Handler \<Rightarrow> 'a Serializer \<Rightarrow> bytes \<Rightarrow> error + 'a val" where
  "unmarshalHandlerArg handler serializer payload =
     (if IsRawArg handler then Inr (Bytes payload)
      else case Handler.Type handler of
             None \<Rightarrow> Inr Nil
           | Some ty \<Rightarrow>
               (case Unmarshal serializer payload ty of
                  Inl err \<Rightarrow> Inl err
                | Inr arg \<Rightarrow> Inr (Ptr arg)))"

text \<open>
  The dynamic type of \<open>msgTypeIface\<close>: a \<open>message.Type\<close>, a \<open>protos.MsgType\<close> (an int32), or
  anything else.
\<close>

datatype msgTypeIface = MessageTypeVal Type | ProtosMsgTypeVal "32 word" | OtherVal

definition getMsgType :: "('a, 'c) env \<Rightarrow> msgTypeIface \<Rightarrow> error + Type" where
  "getMsgType E msgTypeIface =
     (case msgTypeIface of
        MessageTypeVal v \<Rightarrow> Inr v
      | ProtosMsgTypeVal v \<Rightarrow> Inr (ConvertProtoToMessageType E v)
      | OtherVal \<Rightarrow> Inl errInvalidMsg)"

text \<open>
  The loop of \<open>executeBeforePipeline\<close> over the hooks from position \<open>i\<close> on.
\<close>

fun executeBeforePipeline_range ::
  "nat \<Rightarrow> ('c Context \<Rightarrow> 'a val \<Rightarrow> 'a val \<times> error option) list \<Rightarrow> 'c Context \<Rightarrow> 'a val
    \<Rightarrow> ('a val \<times> error option) \<times> 'a event list" where
  "executeBeforePipeline_range i [] ctx res = ((res, None), [])"
| "executeBeforePipeline_range i (h # hs) ctx res =
     (case h ctx res of
        (res', Some err) \<Rightarrow> ((res', Some err), [CallBefore i res, Debugf_broken_pipeline err])
      | (res', None) \<Rightarrow>
          (case executeBeforePipeline_range (Suc i) hs ctx res' of
             (r, evs) \<Rightarrow> (r, CallBefore i res # evs)))"

definition executeBeforePipeline ::
  "('a, 'c) env \<Rightarrow> 'c Context \<Rightarrow> 'a val \<Rightarrow> ('a val \<times> error option) \<times> 'a event list" where
  "executeBeforePipeline E ctx data = executeBeforePipeline_range 0 (BeforeHandler E) ctx data"

fun executeAfterPipeline_range ::
  "nat \<Rightarrow> ('c Context \<Rightarrow> 'a val \<Rightarrow> error option \<Rightarrow> 'a val \<times> error option) list \<Rightarrow> 'c Context
    \<Rightarrow> 'a val \<Rightarrow> error option \<Rightarrow> ('a val \<times> error option) \<times> 'a event list" where
  "executeAfterPipeline_range i [] ctx ret err = ((ret, err), [])"
| "executeAfterPipeline_range i (h # hs) ctx ret err =
     (case h ctx ret err of
        (ret', err') \<Rightarrow>
          (case executeAfterPipeline_range (Suc i) hs ctx ret' err' of
             (r, evs) \<Rightarrow> (r, CallAfter i ret err # evs)))"

definition executeAfterPipeline ::
  "('a, 'c) env \<Rightarrow> 'c Context \<Rightarrow> 'a val \<Rightarrow> error option \<Rightarrow> ('a val \<times> error option) \<times> 'a event list" where
  "executeAfterPipeline E ctx res err = executeAfterPipeline_range 0 (AfterHandler E) ctx res err"

text \<open>
  Modelled from the spec: \<open>util.SerializeOrRaw\<close> is not under src/. A result is either raw
  bytes, which are the payload as they are, or a value that the serializer encodes.
\<close>

definition SerializeOrRaw :: "'a Serializer \<Rightarrow> 'a val \<Rightarrow> error + bytes" where
  "SerializeOrRaw ser v = (case v of Bytes data \<Rightarrow> Inr data | _ \<Rightarrow> Marshal ser v)"

definition serializeReturn ::
  "('a, 'c) env \<Rightarrow> 'a Serializer \<Rightarrow> 'a val \<Rightarrow> (error + bytes) \<times> 'a event list" where
  "serializeReturn E ser ret =
     (case SerializeOrRaw ser ret of
        Inr res \<Rightarrow> (Inr res, [])
      | Inl err \<Rightarrow>
          (case GetErrorPayload E ser err of
             Inl err' \<Rightarrow> (Inl err', [Errorf_failed_to_serialize err, Error_cannot_serialize err'])
           | Inr res \<Rightarrow> (Inr res, [Errorf_failed_to_serialize err])))"

definition ack :: bytes where
  "ack = [0x61, 0x63, 0x6B]"

definition processHandlerMessage ::
  "('a, 'c) env \<Rightarrow> 'c option \<Rightarrow> Route \<Rightarrow> 'a Serializer \<Rightarrow> Session \<Rightarrow> bytes \<Rightarrow> msgTypeIface \<Rightarrow> bool
    \<Rightarrow> (error + bytes) \<times> 'a event list" where
  "processHandlerMessage E ctx0 rt serializer session data msgTypeIface remote =
     (let ctx = \<lparr>parent = ctx0, SessionCtxKey = session,
                 LoggerCtxKey = (Route_String rt, UID session)\<rparr> in
      case getHandler E rt of
        Inl err \<Rightarrow> (Inl (NewError E err (ErrNotFoundCode E)), [])
      | Inr h \<Rightarrow>
      (case getMsgType E msgTypeIface of
        Inl err \<Rightarrow> (Inl (NewError E err (ErrInternalCode E)), [])
      | Inr msgType \<Rightarrow>
      (case ValidateMessageType h msgType of
        (True, Some err) \<Rightarrow> (Inl (NewError E err (ErrBadRequestCode E)), [])
      | (exit, verr) \<Rightarrow>
      (let evs0 = (case verr of Some err \<Rightarrow> [Warnf_invalid_message_type err] | None \<Rightarrow> []) in
       case unmarshalHandlerArg h serializer data of
        Inl err \<Rightarrow> (Inl (NewError E err (ErrBadRequestCode E)), evs0)
      | Inr arg0 \<Rightarrow>
      (case executeBeforePipeline E ctx arg0 of
        ((arg, Some err), evs1) \<Rightarrow> (Inl err, evs0 @ evs1)
      | ((arg, None), evs1) \<Rightarrow>
      (let args = (if arg \<noteq> Nil then [arg] else []) in
       case Handler.Method h ctx args of
        (resp0, err0) \<Rightarrow>
      (let resp1 = (if remote \<and> msgType = Notify then Bytes ack else resp0) in
       case executeAfterPipeline E ctx resp1 err0 of
        ((resp, Some err), evs2) \<Rightarrow>
          (Inl err, evs0 @ evs1 @ [Debugf_SID_Data (Session.ID session) data, CallMethod args] @ evs2)
      | ((resp, None), evs2) \<Rightarrow>
      (case serializeReturn E serializer resp of
        (r, evs3) \<Rightarrow>
          (r, evs0 @ evs1 @ [Debugf_SID_Data (Session.ID session) data, CallMethod args]
                @ evs2 @ evs3)))))))))"

section \<open>The peer client pool (package cluster)\<close>

text \<open>
  \<open>message.Message\<close>, as \<open>Call\<close> receives it.
\<close>

record Message =
  Type :: Type
  ID :: "64 word"
  Route :: string
  Data :: bytes
  compressed :: bool
  Err :: bool

record Server =
  ID :: string
  Type :: string
  Metadata :: "string \<rightharpoonup> string"
  Frontend :: bool

text \<open>
  The records of package \<open>protos\<close> that the code reads or builds field by field.
\<close>

record protos_Error =
  Code :: string
  Msg :: string
  Metadata :: "string \<rightharpoonup> string"

record protos_Response =
  Data :: bytes
  Error :: "protos_Error option"

record protos_BindMsg =
  Uid :: string
  Fid :: string

text \<open>
  \<open>grpcClient\<close>: the address and the flag \<open>connected\<close>. The connection and the stub that
  \<open>connect\<close> stores are the transport below, reached through the address; the lock is
  not modelled.
\<close>

record grpcClient =
  address :: string
  connected :: bool

text \<open>
  What lies outside the package, taken as parameters: \<open>grpc.Dial\<close> (its error), the four
  remote methods of the stub \<open>protos.PitayaClient\<close> of the peer at an address (their
  results, a deadline error included), \<open>buildRequest\<close>, which is not under src/ (here with
  the span that \<open>Call\<close> starts before it), and the constant \<open>errors.ErrUnknownCode\<close>.
  \<open>'x\<close> is the caller's context, \<open>'q\<close> is \<open>protos.Request\<close>, \<open>'k\<close> is \<open>protos.KickMsg\<close> and
  \<open>'p\<close> is \<open>protos.Push\<close>.
\<close>

record ('x, 'q, 'k, 'p) transport =
  Dial :: "string \<Rightarrow> error option"
  PitayaClient_Call :: "string \<Rightarrow> 'q \<Rightarrow> error + protos_Response"
  PitayaClient_SessionBindRemote :: "string \<Rightarrow> protos_BindMsg \<Rightarrow> error option"
  PitayaClient_KickUser :: "string \<Rightarrow> 'k \<Rightarrow> error option"
  PitayaClient_PushToUser :: "string \<Rightarrow> 'p \<Rightarrow> error option"
  buildRequest :: "'x \<Rightarrow> 32 word \<Rightarrow> Route \<Rightarrow> Session \<Rightarrow> Message \<Rightarrow> Server \<Rightarrow> error + 'q"
  ErrUnknownCode :: string

text \<open>
  \<open>GRPCClient\<close>: the binding storage (\<open>None\<close> is nil; the function is its method
  \<open>GetUserFrontendID\<close>, giving the pair \<open>(id, err)\<close>), the map from server id to peer client
  and the local server. Time-outs, metrics and tracing are not modelled.
\<close>

record GRPCClient =
  bindingStorage :: "(string \<Rightarrow> string \<Rightarrow> string \<times> error option) option"
  clientMap :: "string \<rightharpoonup> grpcClient"
  server :: Server

definition connect :: "('x, 'q, 'k, 'p) transport \<Rightarrow> grpcClient \<Rightarrow> error option \<times> grpcClient" where
  "connect tr gc =
     (if connected gc then (None, gc)
      else case Dial tr (address gc) of
             Some err \<Rightarrow> (Some err, gc)
           | None \<Rightarrow> (None, gc\<lparr>connected := True\<rparr>))"

definition pushToUser ::
  "('x, 'q, 'k, 'p) transport \<Rightarrow> grpcClient \<Rightarrow> 'p \<Rightarrow> error option \<times> grpcClient" where
  "pushToUser tr gc push =
     (case (if \<not> connected gc then connect tr gc else (None, gc)) of
        (Some err, gc') \<Rightarrow> (Some err, gc')
      | (None, gc') \<Rightarrow> (PitayaClient_PushToUser tr (address gc') push, gc'))"

definition call ::
  "('x, 'q, 'k, 'p) transport \<Rightarrow> grpcClient \<Rightarrow> 'q \<Rightarrow> (error + protos_Response) \<times> grpcClient" where
  "call tr gc req =
     (case (if \<not> connected gc then connect tr gc else (None, gc)) of
        (Some err, gc') \<Rightarrow> (Inl err, gc')
      | (None, gc') \<Rightarrow> (PitayaClient_Call tr (address gc') req, gc'))"

definition sessionBindRemote ::
  "('x, 'q, 'k, 'p) transport \<Rightarrow> grpcClient \<Rightarrow> protos_BindMsg \<Rightarrow> error option \<times> grpcClient" where
  "sessionBindRemote tr gc req =
     (case (if \<not> connected gc then connect tr gc else (None, gc)) of
        (Some err, gc') \<Rightarrow> (Some err, gc')
      | (None, gc') \<Rightarrow> (PitayaClient_SessionBindRemote tr (address gc') req, gc'))"

definition sendKick ::
  "('x, 'q, 'k, 'p) transport \<Rightarrow> grpcClient \<Rightarrow> 'k \<Rightarrow> error option \<times> grpcClient" where
  "sendKick tr gc req =
     (case (if \<not> connected gc then connect tr gc else (None, gc)) of
        (Some err, gc') \<Rightarrow> (Some err, gc')
      | (None, gc') \<Rightarrow> (PitayaClient_KickUser tr (address gc') req, gc'))"

text \<open>
  The peer clients are held by pointer, so what a remote method does to the client
  (\<open>connected\<close>) is written back to the map.
\<close>

definition Call ::
  "('x, 'q, 'k, 'p) transport \<Rightarrow> GRPCClient \<Rightarrow> 'x \<Rightarrow> 32 word \<Rightarrow> Route \<Rightarrow> Session \<Rightarrow> Message \<Rightarrow> Server
    \<Rightarrow> (error + protos_Response) \<times> GRPCClient" where
  "Call tr gs ctx rpcType route session msg sv =
     (case clientMap gs (Server.ID sv) of
        None \<Rightarrow> (Inl ErrNoConnectionToServer, gs)
      | Some c \<Rightarrow>
          (case buildRequest tr ctx rpcType route session msg (server gs) of
             Inl err \<Rightarrow> (Inl err, gs)
           | Inr req \<Rightarrow>
               (case call tr c req of
                  (Inl err, c') \<Rightarrow> (Inl err, gs\<lparr>clientMap := (clientMap gs)(Server.ID sv \<mapsto> c')\<rparr>)
                | (Inr res, c') \<Rightarrow>
                    (case Error res of
                       Some e \<Rightarrow>
                         (Inl (PitayaError (if Code e = [] then ErrUnknownCode tr else Code e)
                                 (Msg e) (protos_Error.Metadata e)),
                          gs\<lparr>clientMap := (clientMap gs)(Server.ID sv \<mapsto> c')\<rparr>)
                     | None \<Rightarrow>
                         (Inr res, gs\<lparr>clientMap := (clientMap gs)(Server.ID sv \<mapsto> c')\<rparr>)))))"

definition BroadcastSessionBind ::
  "('x, 'q, 'k, 'p) transport \<Rightarrow> GRPCClient \<Rightarrow> string \<Rightarrow> error option \<times> GRPCClient" where
  "BroadcastSessionBind tr gs uid =
     (case bindingStorage gs of
        None \<Rightarrow> (Some ErrNoBindingStorageModule, gs)
      | Some GetUserFrontendID \<Rightarrow>
          (case GetUserFrontendID uid (Server.Type (server gs)) of
             (fid, _) \<Rightarrow>
               (if fid \<noteq> [] then
                  (case clientMap gs fid of
                     Some c \<Rightarrow>
                       (case sessionBindRemote tr c \<lparr>Uid = uid, Fid = Server.ID (server gs)\<rparr> of
                          (err, c') \<Rightarrow> (err, gs\<lparr>clientMap := (clientMap gs)(fid \<mapsto> c')\<rparr>))
                   | None \<Rightarrow> (None, gs))
                else (None, gs))))"

definition SendKick ::
  "('x, 'q, 'k, 'p) transport \<Rightarrow> GRPCClient \<Rightarrow> string \<Rightarrow> string \<Rightarrow> 'k \<Rightarrow> error option \<times> GRPCClient" where
  "SendKick tr gs userID serverType kick =
     (case bindingStorage gs of
        None \<Rightarrow> (Some ErrNoBindingStorageModule, gs)
      | Some GetUserFrontendID \<Rightarrow>
          (case GetUserFrontendID userID serverType of
             (svID, Some err) \<Rightarrow> (Some err, gs)
           | (svID, None) \<Rightarrow>
               (case clientMap gs svID of
                  Some c \<Rightarrow>
                    (case sendKick tr c kick of
                       (err, c') \<Rightarrow> (err, gs\<lparr>clientMap := (clientMap gs)(svID \<mapsto> c')\<rparr>))
                | None \<Rightarrow> (Some ErrNoConnectionToServer, gs))))"

definition SendPush ::
  "('x, 'q, 'k, 'p) transport \<Rightarrow> GRPCClient \<Rightarrow> string \<Rightarrow> Server \<Rightarrow> 'p \<Rightarrow> error option \<times> GRPCClient" where
  "SendPush tr gs userID frontendSv push =
     (case (if Server.ID frontendSv \<noteq> [] then Inr (Server.ID frontendSv)
            else case bindingStorage gs of
                   None \<Rightarrow> Inl ErrNoBindingStorageModule
                 | Some GetUserFrontendID \<Rightarrow>
                     (case GetUserFrontendID userID (Server.Type frontendSv) of
                        (svID, Some err) \<Rightarrow> Inl err
                      | (svID, None) \<Rightarrow> Inr svID)) of
        Inl err \<Rightarrow> (Some err, gs)
      | Inr svID \<Rightarrow>
          (case clientMap gs svID of
             Some c \<Rightarrow>
               (case pushToUser tr c push of
                  (err, c') \<Rightarrow> (err, gs\<lparr>clientMap := (clientMap gs)(svID \<mapsto> c')\<rparr>))
           | None \<Rightarrow> (Some ErrNoConnectionToServer, gs)))"

section \<open>Example inputs\<close>

text \<open>
  Concrete inputs, on which the theorems below are instantiated: a service \<open>Room\<close> with
  a Request handler \<open>Join\<close>, a Notify handler \<open>Tick\<close> and a Request handler \<open>Fail\<close> that
  returns an error, a serializer whose objects are their own bytes, and a pool on node
  \<open>A\<close> with one peer \<open>B\<close> and a binding directory that knows the users \<open>u1\<close> (on \<open>B\<close>)
  and \<open>u3\<close> (on \<open>C\<close>, which has no peer client).
\<close>

definition example_serializer :: "bytes Serializer" where
  "example_serializer =
     \<lparr>Unmarshal = (\<lambda>payload ty. if payload = [] then Inl (OtherError ''empty payload'') else Inr payload),
      Marshal = (\<lambda>v. case v of Ptr b \<Rightarrow> Inr b | _ \<Rightarrow> Inl (OtherError ''cannot marshal''))\<rparr>"

definition Room_Join :: "(bytes, unit) Handler" where
  "Room_Join = \<lparr>IsRawArg = False, Type = Some ''JoinReq'', MessageType = Request,
                 Method = (\<lambda>ctx args. (Ptr [0x6F, 0x6B], None))\<rparr>"

definition Room_Tick :: "(bytes, unit) Handler" where
  "Room_Tick = \<lparr>IsRawArg = False, Type = None, MessageType = Notify,
                 Method = (\<lambda>ctx args. (Nil, None))\<rparr>"

definition Room_Fail :: "(bytes, unit) Handler" where
  "Room_Fail = \<lparr>IsRawArg = True, Type = None, MessageType = Request,
                 Method = (\<lambda>ctx args. (Nil, Some (OtherError ''room is full'')))\<rparr>"

definition example_env :: "(bytes, unit) env" where
  "example_env =
     \<lparr>handlers = [''Room.Join'' \<mapsto> Room_Join, ''Room.Tick'' \<mapsto> Room_Tick, ''Room.Fail'' \<mapsto> Room_Fail],
      BeforeHandler = [],
      AfterHandler = [],
      ConvertProtoToMessageType = (\<lambda>v. if v = 1 then Notify else Request),
      NewError = (\<lambda>err code. case err of PitayaError c m md \<Rightarrow> err
                                | ErrRequestOnNotify \<Rightarrow> PitayaError code ''tried to request a notify route'' Map.empty
                                | _ \<Rightarrow> PitayaError code ''error'' Map.empty),
      ErrNotFoundCode = ''PIT-404'',
      ErrInternalCode = ''PIT-500'',
      ErrBadRequestCode = ''PIT-400'',
      GetErrorPayload = (\<lambda>ser err. Inl err)\<rparr>"

definition example_route :: "string \<Rightarrow> Route" where
  "example_route m = \<lparr>SvType = [], Service = ''Room'', Method = m\<rparr>"

definition example_session :: Session where
  "example_session = \<lparr>Session.ID = 1, UID = ''u1''\<rparr>"

definition example_ctx :: "string \<Rightarrow> unit Context" where
  "example_ctx m = \<lparr>parent = None, SessionCtxKey = example_session,
                     LoggerCtxKey = (''Room.'' @ m, ''u1'')\<rparr>"

definition example_post_hook :: "unit Context \<Rightarrow> bytes val \<Rightarrow> error option \<Rightarrow> bytes val \<times> error option" where
  "example_post_hook ctx ret err = (ret, Some (OtherError ''seen by post-hook''))"

definition example_pre_hook_fail :: "unit Context \<Rightarrow> bytes val \<Rightarrow> bytes val \<times> error option" where
  "example_pre_hook_fail ctx arg = (arg, Some (OtherError ''not logged in''))"

definition example_pre_hook_pass :: "unit Context \<Rightarrow> bytes val \<Rightarrow> bytes val \<times> error option" where
  "example_pre_hook_pass ctx arg = (arg, None)"

definition example_transport :: "(unit, unit, unit, unit) transport" where
  "example_transport =
     \<lparr>Dial = (\<lambda>a. None),
      PitayaClient_Call = (\<lambda>a q. Inr \<lparr>Data = [], Error = Some \<lparr>Code = [], Msg = ''x'', Metadata = Map.empty\<rparr>\<rparr>),
      PitayaClient_SessionBindRemote = (\<lambda>a m. None),
      PitayaClient_KickUser = (\<lambda>a k. None),
      PitayaClient_PushToUser = (\<lambda>a p. None),
      buildRequest = (\<lambda>x t r s m sv. Inr ()),
      ErrUnknownCode = ''PIT-000''\<rparr>"

definition example_binding :: "string \<Rightarrow> string \<Rightarrow> string \<times> error option" where
  "example_binding uid serverType =
     (if uid = ''u1'' then (''B'', None)
      else if uid = ''u3'' then (''C'', None)
      else ([], Some (OtherError ''binding not found'')))"

definition example_server :: "string \<Rightarrow> Server" where
  "example_server sid = \<lparr>Server.ID = sid, Type = ''connector'', Metadata = Map.empty, Frontend = True\<rparr>"

definition example_pool :: GRPCClient where
  "example_pool =
     \<lparr>bindingStorage = Some example_binding,
      clientMap = [''B'' \<mapsto> \<lparr>address = ''10.0.0.2:3434'', connected = False\<rparr>],
      server = example_server ''A''\<rparr>"

definition example_message :: Message where
  "example_message = \<lparr>Message.Type = Request, ID = 1, Route = ''Room.Join'', Data = [0x7B, 0x7D],
                        compressed = False, Err = False\<rparr>"

section \<open>Theorems: route dictionary\<close>

lemma SetDictionary_range_keeps:
  "SetDictionary_range es d = (res, d') \<Longrightarrow>
     routes d \<subseteq>\<^sub>m routes d' \<and> codes d \<subseteq>\<^sub>m codes d'"
proof (induction es arbitrary: d)
  case Nil
  then show ?case by simp
next
  case (Cons e es)
  obtain route code where e: "e = (route, code)" by (cases e)
  show ?case
  proof (cases "routes d (TrimSpace route) \<noteq> None \<or> codes d code \<noteq> None")
    case True
    with Cons.prems e show ?thesis by (auto simp: Let_def split: if_splits)
  next
    case False
    let ?d1 = "d\<lparr>routes := (routes d)(TrimSpace route \<mapsto> code),
                  codes := (codes d)(code \<mapsto> TrimSpace route)\<rparr>"
    from False Cons.prems e have "SetDictionary_range es ?d1 = (res, d')"
      by (simp add: Let_def)
    from Cons.IH [OF this]
    have "routes ?d1 \<subseteq>\<^sub>m routes d'" and "codes ?d1 \<subseteq>\<^sub>m codes d'" by blast+
    moreover from False have "routes d \<subseteq>\<^sub>m routes ?d1" and "codes d \<subseteq>\<^sub>m codes ?d1"
      by (auto simp: map_le_def)
    ultimately show ?thesis by (blast intro: map_le_trans)
  qed
qed

lemma SetDictionary_range_error:
  "SetDictionary_range es d = (Some e, d') \<Longrightarrow> \<exists>r c. e = DuplicatedRoute r c"
proof (induction es arbitrary: d)
  case Nil
  then show ?case by simp
next
  case (Cons x es)
  then show ?case
    by (cases x) (auto simp: Let_def split: if_splits)
qed

lemma SetDictionary_range_duplicate:
  "(\<exists>x \<in> set es. TrimSpace (fst x) \<in> dom (routes d) \<or> snd x \<in> dom (codes d))
     \<or> \<not> distinct (map (\<lambda>x. TrimSpace (fst x)) es) \<or> \<not> distinct (map snd es)
   \<Longrightarrow> fst (SetDictionary_range es d) \<noteq> None"
proof (induction es arbitrary: d)
  case Nil
  then show ?case by simp
next
  case (Cons x es)
  obtain route code where x: "x = (route, code)" by (cases x)
  show ?case
  proof (cases "routes d (TrimSpace route) \<noteq> None \<or> codes d code \<noteq> None")
    case True
    with x show ?thesis by (auto simp: Let_def)
  next
    case False
    let ?d1 = "d\<lparr>routes := (routes d)(TrimSpace route \<mapsto> code),
                  codes := (codes d)(code \<mapsto> TrimSpace route)\<rparr>"
    have "(\<exists>y \<in> set es. TrimSpace (fst y) \<in> dom (routes ?d1) \<or> snd y \<in> dom (codes ?d1))
        \<or> \<not> distinct (map (\<lambda>x. TrimSpace (fst x)) es) \<or> \<not> distinct (map snd es)"
      using Cons.prems False x by (simp add: domIff image_iff) metis
    from Cons.IH [OF this] False x show ?thesis by (simp add: Let_def)
  qed
qed

lemma TrimSpace_ascii_ends:
  assumes "s \<noteq> []"
    and "(of_char (hd s) :: nat) < 0x80" and "\<not> IsSpace (of_char (hd s))"
    and "(of_char (last s) :: nat) < 0x80" and "\<not> IsSpace (of_char (last s))"
  shows "TrimSpace s = s"
proof -
  from assms(1) obtain c cs where s: "s = c # cs" by (cases s) auto
  with assms(2,3) have left: "TrimLeftSpace s = s"
    by (subst TrimLeftSpace.simps) (simp add: DecodeRuneInString_def)
  from assms(1) have "map of_char s ! (length s - 1) = (of_char (last s) :: nat)"
    by (simp add: last_conv_nth)
  with assms(1,4,5) have "TrimRightSpace s = s"
    by (subst TrimRightSpace.simps) (simp add: DecodeLastRuneInString_def Let_def)
  with left show ?thesis by (simp add: TrimSpace_def)
qed

lemma TrimSpace_NBSP_ascii_ends:
  assumes "s \<noteq> []"
    and "(of_char (hd s) :: nat) < 0x80" and "\<not> IsSpace (of_char (hd s))"
    and "(of_char (last s) :: nat) < 0x80" and "\<not> IsSpace (of_char (last s))"
  shows "TrimSpace (CHR 0xC2 # CHR 0xA0 # s) = s"
proof -
  have "TrimLeftSpace (CHR 0xC2 # CHR 0xA0 # s) = TrimLeftSpace s"
    by (subst TrimLeftSpace.simps) (simp add: DecodeRuneInString_def continuation_def IsSpace_def)
  moreover from assms have "TrimSpace s = s" by (rule TrimSpace_ascii_ends)
  ultimately show ?thesis by (simp add: TrimSpace_def)
qed

lemma SetDictionary_range_first_duplicate:
  "SetDictionary_range es d = (Some e, d') \<Longrightarrow>
   \<exists>pre x post.
      es = pre @ x # post
    \<and> (\<forall>y \<in> set pre. routes d (TrimSpace (fst y)) = None \<and> codes d (snd y) = None)
    \<and> distinct (map (\<lambda>y. TrimSpace (fst y)) pre) \<and> distinct (map snd pre)
    \<and> (routes d (TrimSpace (fst x)) \<noteq> None
         \<or> TrimSpace (fst x) \<in> (\<lambda>y. TrimSpace (fst y)) ` set pre
         \<or> codes d (snd x) \<noteq> None \<or> snd x \<in> snd ` set pre)
    \<and> e = DuplicatedRoute (TrimSpace (fst x)) (snd x)
    \<and> d' = \<lparr>routes = routes d ++ map_of (map (\<lambda>y. (TrimSpace (fst y), snd y)) pre),
            codes = codes d ++ map_of (map (\<lambda>y. (snd y, TrimSpace (fst y))) pre)\<rparr>"
proof (induction es arbitrary: d)
  case Nil
  then show ?case by simp
next
  case (Cons a es)
  obtain route code where a: "a = (route, code)" by (cases a)
  let ?r = "TrimSpace route"
  show ?case
  proof (cases "routes d ?r \<noteq> None \<or> codes d code \<noteq> None")
    case True
    with Cons.prems a have e: "e = DuplicatedRoute ?r code" and d': "d' = d"
      by (auto simp: Let_def split: if_splits)
    have "a # es = [] @ a # es" by simp
    moreover have "routes d (TrimSpace (fst a)) \<noteq> None
         \<or> TrimSpace (fst a) \<in> (\<lambda>y. TrimSpace (fst y)) ` set []
         \<or> codes d (snd a) \<noteq> None \<or> snd a \<in> snd ` set []"
      using True a by auto
    moreover have "d' = \<lparr>routes = routes d ++ map_of (map (\<lambda>y. (TrimSpace (fst y), snd y)) []),
            codes = codes d ++ map_of (map (\<lambda>y. (snd y, TrimSpace (fst y))) [])\<rparr>"
      using d' by simp
    moreover have "e = DuplicatedRoute (TrimSpace (fst a)) (snd a)" using e a by simp
    ultimately show ?thesis
      by (intro exI [of _ "[]"] exI [of _ a] exI [of _ es]) simp
  next
    case False
    let ?d1 = "d\<lparr>routes := (routes d)(?r \<mapsto> code), codes := (codes d)(code \<mapsto> ?r)\<rparr>"
    from False Cons.prems a have "SetDictionary_range es ?d1 = (Some e, d')"
      by (simp add: Let_def)
    from Cons.IH [OF this] obtain pre x post where
      es: "es = pre @ x # post"
      and free: "\<forall>y \<in> set pre. routes ?d1 (TrimSpace (fst y)) = None \<and> codes ?d1 (snd y) = None"
      and dist: "distinct (map (\<lambda>y. TrimSpace (fst y)) pre)" "distinct (map snd pre)"
      and x: "routes ?d1 (TrimSpace (fst x)) \<noteq> None
         \<or> TrimSpace (fst x) \<in> (\<lambda>y. TrimSpace (fst y)) ` set pre
         \<or> codes ?d1 (snd x) \<noteq> None \<or> snd x \<in> snd ` set pre"
      and e: "e = DuplicatedRoute (TrimSpace (fst x)) (snd x)"
      and d': "d' = \<lparr>routes = routes ?d1 ++ map_of (map (\<lambda>y. (TrimSpace (fst y), snd y)) pre),
            codes = codes ?d1 ++ map_of (map (\<lambda>y. (snd y, TrimSpace (fst y))) pre)\<rparr>"
      by blast
    from free have fresh_r: "?r \<notin> (\<lambda>y. TrimSpace (fst y)) ` set pre"
      and fresh_c: "code \<notin> snd ` set pre"
      by (auto split: if_splits)
    have 1: "a # es = (a # pre) @ x # post" using es by simp
    have 2: "\<forall>y \<in> set (a # pre). routes d (TrimSpace (fst y)) = None \<and> codes d (snd y) = None"
      using free False a by (auto split: if_splits)
    have 3: "distinct (map (\<lambda>y. TrimSpace (fst y)) (a # pre))" "distinct (map snd (a # pre))"
      using dist fresh_r fresh_c a by auto
    have 4: "routes d (TrimSpace (fst x)) \<noteq> None
         \<or> TrimSpace (fst x) \<in> (\<lambda>y. TrimSpace (fst y)) ` set (a # pre)
         \<or> codes d (snd x) \<noteq> None \<or> snd x \<in> snd ` set (a # pre)"
      using x a by (auto split: if_splits)
    have "?r \<notin> dom (map_of (map (\<lambda>y. (TrimSpace (fst y), snd y)) pre))"
      using fresh_r by (simp add: dom_map_of_conv_image_fst image_image)
    then have r: "(routes d)(?r \<mapsto> code) ++ map_of (map (\<lambda>y. (TrimSpace (fst y), snd y)) pre)
        = routes d ++ map_of (map (\<lambda>y. (TrimSpace (fst y), snd y)) (a # pre))"
      using a by (simp add: map_add_upd_left)
    have "code \<notin> dom (map_of (map (\<lambda>y. (snd y, TrimSpace (fst y))) pre))"
      using fresh_c by (simp add: dom_map_of_conv_image_fst image_image)
    then have c: "(codes d)(code \<mapsto> ?r) ++ map_of (map (\<lambda>y. (snd y, TrimSpace (fst y))) pre)
        = codes d ++ map_of (map (\<lambda>y. (snd y, TrimSpace (fst y))) (a # pre))"
      using a by (simp add: map_add_upd_left)
    have 5: "d' = \<lparr>routes = routes d ++ map_of (map (\<lambda>y. (TrimSpace (fst y), snd y)) (a # pre)),
            codes = codes d ++ map_of (map (\<lambda>y. (snd y, TrimSpace (fst y))) (a # pre))\<rparr>"
      using d' r c by simp
    from 1 2 3 4 e 5 show ?thesis by blast
  qed
qed

text \<open>
  C1 (as amended). When the map handed to \<open>SetDictionary\<close> holds a duplicate (an entry
  whose trimmed route or whose code is already installed, or two entries with the same
  trimmed route or the same code), the call returns a duplication error, and the error
  names the first entry, in the order in which the loop visits the map, whose trimmed route
  or code is installed already or has been installed by an entry before it. Every binding
  of the dictionary installed before the call is still there with the same value, in both
  directions; the entries visited before that first duplicate have been installed, and
  nothing else: the dictionary after the call is the one before it extended by exactly
  those entries.
\<close>

theorem SetDictionary_duplicate_installs_prefix:
  assumes dup: "(\<exists>x \<in> set entries. TrimSpace (fst x) \<in> dom (routes d) \<or> snd x \<in> dom (codes d))
      \<or> \<not> distinct (map (\<lambda>x. TrimSpace (fst x)) entries) \<or> \<not> distinct (map snd entries)"
    and run: "SetDictionary (Some entries) d = (res, d')"
  shows "\<exists>pre x post.
      entries = pre @ x # post
    \<and> (\<forall>y \<in> set pre. routes d (TrimSpace (fst y)) = None \<and> codes d (snd y) = None)
    \<and> distinct (map (\<lambda>y. TrimSpace (fst y)) pre) \<and> distinct (map snd pre)
    \<and> (routes d (TrimSpace (fst x)) \<noteq> None
         \<or> TrimSpace (fst x) \<in> (\<lambda>y. TrimSpace (fst y)) ` set pre
         \<or> codes d (snd x) \<noteq> None \<or> snd x \<in> snd ` set pre)
    \<and> res = Some (DuplicatedRoute (TrimSpace (fst x)) (snd x))
    \<and> d' = \<lparr>routes = routes d ++ map_of (map (\<lambda>y. (TrimSpace (fst y), snd y)) pre),
            codes = codes d ++ map_of (map (\<lambda>y. (snd y, TrimSpace (fst y))) pre)\<rparr>
    \<and> routes d \<subseteq>\<^sub>m routes d' \<and> codes d \<subseteq>\<^sub>m codes d'"
proof -
  from run have range: "SetDictionary_range entries d = (res, d')"
    by (simp add: SetDictionary_def)
  from SetDictionary_range_duplicate [OF dup] range obtain e where res: "res = Some e"
    by auto
  from range have keeps: "routes d \<subseteq>\<^sub>m routes d' \<and> codes d \<subseteq>\<^sub>m codes d'"
    by (rule SetDictionary_range_keeps)
  from SetDictionary_range_first_duplicate [OF range [unfolded res]] res keeps
  show ?thesis by blast
qed


lemma TrimSpace_example_routes:
  "TrimSpace ''Room.Join'' = ''Room.Join''"
  "TrimSpace ''Room.Leave'' = ''Room.Leave''"
  "TrimSpace (CHR 0xC2 # CHR 0xA0 # ''Room.Join'') = ''Room.Join''"
  by (simp_all add: TrimSpace_ascii_ends TrimSpace_NBSP_ascii_ends IsSpace_def)


theorem SetDictionary_duplicate_installs_prefix_witness:
  "\<not> distinct (map (\<lambda>x. TrimSpace (fst x))
        [(CHR 0xC2 # CHR 0xA0 # ''Room.Join'', 7 :: 16 word), (''Room.Join'', 8)])
   \<and> fst (SetDictionary (Some [(CHR 0xC2 # CHR 0xA0 # ''Room.Join'', 7), (''Room.Join'', 8)])
          \<lparr>routes = [''Room.Tick'' \<mapsto> 3], codes = [3 \<mapsto> ''Room.Tick'']\<rparr>)
       = Some (DuplicatedRoute ''Room.Join'' 8)
   \<and> snd (SetDictionary (Some [(CHR 0xC2 # CHR 0xA0 # ''Room.Join'', 7), (''Room.Join'', 8)])
          \<lparr>routes = [''Room.Tick'' \<mapsto> 3], codes = [3 \<mapsto> ''Room.Tick'']\<rparr>)
       = \<lparr>routes = [''Room.Tick'' \<mapsto> 3, ''Room.Join'' \<mapsto> 7],
          codes = [3 \<mapsto> ''Room.Tick'', 7 \<mapsto> ''Room.Join'']\<rparr>"
proof -
  let ?e1 = "(CHR 0xC2 # CHR 0xA0 # ''Room.Join'', 7 :: 16 word)"
  let ?e2 = "(''Room.Join'', 8 :: 16 word)"
  let ?d = "\<lparr>routes = [''Room.Tick'' \<mapsto> 3 :: 16 word], codes = [3 \<mapsto> ''Room.Tick'']\<rparr>"
  let ?run = "SetDictionary (Some [?e1, ?e2]) ?d"
  have nd: "\<not> distinct (map (\<lambda>x. TrimSpace (fst x)) [?e1, ?e2])"
    by (simp add: TrimSpace_example_routes)
  then have dup: "(\<exists>x \<in> set [?e1, ?e2]. TrimSpace (fst x) \<in> dom (routes ?d) \<or> snd x \<in> dom (codes ?d))
      \<or> \<not> distinct (map (\<lambda>x. TrimSpace (fst x)) [?e1, ?e2]) \<or> \<not> distinct (map snd [?e1, ?e2])"
    by blast
  have run: "?run = (fst ?run, snd ?run)" by simp
  from SetDictionary_duplicate_installs_prefix [OF dup run] obtain pre x post where
    split: "[?e1, ?e2] = pre @ x # post"
    and x: "routes ?d (TrimSpace (fst x)) \<noteq> None
         \<or> TrimSpace (fst x) \<in> (\<lambda>y. TrimSpace (fst y)) ` set pre
         \<or> codes ?d (snd x) \<noteq> None \<or> snd x \<in> snd ` set pre"
    and res: "fst ?run = Some (DuplicatedRoute (TrimSpace (fst x)) (snd x))"
    and d': "snd ?run = \<lparr>routes = routes ?d ++ map_of (map (\<lambda>y. (TrimSpace (fst y), snd y)) pre),
            codes = codes ?d ++ map_of (map (\<lambda>y. (snd y, TrimSpace (fst y))) pre)\<rparr>"
    by blast
  from split have "(pre = [] \<and> x = ?e1) \<or> (pre = [?e1] \<and> x = ?e2)"
    by (auto simp: Cons_eq_append_conv)
  moreover have "\<not> (pre = [] \<and> x = ?e1)"
    using x by (auto simp: TrimSpace_example_routes)
  ultimately have pre: "pre = [?e1]" and x2: "x = ?e2" by blast+
  from res x2 have 1: "fst ?run = Some (DuplicatedRoute ''Room.Join'' 8)"
    by (simp add: TrimSpace_example_routes)
  from d' pre have 2: "snd ?run = \<lparr>routes = [''Room.Tick'' \<mapsto> 3, ''Room.Join'' \<mapsto> 7],
          codes = [3 \<mapsto> ''Room.Tick'', 7 \<mapsto> ''Room.Join'']\<rparr>"
    by (simp add: TrimSpace_example_routes)
  from nd 1 2 show ?thesis by blast
qed

text \<open>
  C1 as stated fails: the call is not all-or-nothing. With nothing installed and the map
  \<open>{"Room.Join": 7, "Room.Leave": 7}\<close>, whichever entry the loop visits first is
  installed before the second one is found to repeat the code 7, so the call returns the
  error and leaves a dictionary that is not the one before the call.
\<close>

theorem SetDictionary_not_atomic_counterexample:
  "fst (SetDictionary (Some [(''Room.Join'', 7), (''Room.Leave'', 7)]) no_dictionary)
     = Some (DuplicatedRoute ''Room.Leave'' 7)
   \<and> routes (snd (SetDictionary (Some [(''Room.Join'', 7), (''Room.Leave'', 7)]) no_dictionary))
        ''Room.Join'' = Some 7
   \<and> codes (snd (SetDictionary (Some [(''Room.Join'', 7), (''Room.Leave'', 7)]) no_dictionary))
        7 = Some ''Room.Join''
   \<and> fst (SetDictionary (Some [(''Room.Leave'', 7), (''Room.Join'', 7)]) no_dictionary)
     = Some (DuplicatedRoute ''Room.Join'' 7)
   \<and> routes (snd (SetDictionary (Some [(''Room.Leave'', 7), (''Room.Join'', 7)]) no_dictionary))
        ''Room.Leave'' = Some 7
   \<and> codes (snd (SetDictionary (Some [(''Room.Leave'', 7), (''Room.Join'', 7)]) no_dictionary))
        7 = Some ''Room.Leave''
   \<and> routes no_dictionary ''Room.Join'' = None \<and> routes no_dictionary ''Room.Leave'' = None
   \<and> codes no_dictionary 7 = None"
  by (simp add: SetDictionary_def no_dictionary_def TrimSpace_example_routes Let_def)

section \<open>Theorems: dispatch\<close>

lemmas example_defs =
  example_serializer_def Room_Join_def Room_Tick_def Room_Fail_def example_env_def
  example_route_def example_session_def example_ctx_def
  Route_Short_def Route_String_def getMsgType_def unmarshalHandlerArg_def
  executeBeforePipeline_def executeAfterPipeline_def serializeReturn_def SerializeOrRaw_def
  ValidateMessageType_def Request_def Notify_def Response_def Push_def

lemma Type_distinct:
  "Request \<noteq> Notify" "Notify \<noteq> Request" "Response \<noteq> Request" "Response \<noteq> Notify"
  "Push \<noteq> Request" "Push \<noteq> Notify" "Request \<noteq> Response" "Notify \<noteq> Response"
  "Request \<noteq> Push" "Notify \<noteq> Push"
  by (simp_all add: Request_def Notify_def Response_def Push_def)

lemma executeAfterPipeline_range_fold:
  "executeAfterPipeline_range i hs ctx ret err =
     (foldl (\<lambda>p h. h ctx (fst p) (snd p)) (ret, err) hs,
      map (\<lambda>j. CallAfter (i + j)
                 (fst (foldl (\<lambda>p h. h ctx (fst p) (snd p)) (ret, err) (take j hs)))
                 (snd (foldl (\<lambda>p h. h ctx (fst p) (snd p)) (ret, err) (take j hs))))
          [0..<length hs])"
proof (induction hs arbitrary: i ret err)
  case Nil
  then show ?case by simp
next
  case (Cons h hs)
  obtain ret' err' where h: "h ctx ret err = (ret', err')" by (cases "h ctx ret err")
  have upt: "[0..<Suc (length hs)] = 0 # map Suc [0..<length hs]"
    by (simp add: upt_conv_Cons map_Suc_upt del: upt_Suc)
  show ?case
    unfolding length_Cons upt
    by (simp add: h Cons.IH comp_def)
qed

lemma executeBeforePipeline_range_stop:
  "k < length hs \<Longrightarrow>
   executeBeforePipeline_range i (take k hs) ctx arg0 = ((argk, None), evsk) \<Longrightarrow>
   (hs ! k) ctx argk = (r, Some e) \<Longrightarrow>
   executeBeforePipeline_range i hs ctx arg0
     = ((r, Some e), evsk @ [CallBefore (i + k) argk, Debugf_broken_pipeline e])"
proof (induction hs arbitrary: i k arg0 evsk)
  case Nil
  then show ?case by simp
next
  case (Cons h hs)
  show ?case
  proof (cases k)
    case 0
    with Cons.prems show ?thesis by simp
  next
    case (Suc k')
    obtain res' err' where h: "h ctx arg0 = (res', err')" by (cases "h ctx arg0")
    from Cons.prems(2) Suc h have none: "err' = None"
      by (cases err') (auto split: prod.splits)
    obtain r1 evs1 where rest: "executeBeforePipeline_range (Suc i) (take k' hs) ctx res' = (r1, evs1)"
      by (cases "executeBeforePipeline_range (Suc i) (take k' hs) ctx res'")
    from Cons.prems(2) Suc h none rest have r1: "r1 = (argk, None)" and evsk: "evsk = CallBefore i arg0 # evs1"
      by auto
    from Cons.prems Suc have "k' < length hs" and "(hs ! k') ctx argk = (r, Some e)" by auto
    from Cons.IH [OF this(1) rest [unfolded r1] this(2)]
    show ?thesis using h none evsk Suc by simp
  qed
qed

lemma executeBeforePipeline_range_pass:
  "executeBeforePipeline_range i hs ctx arg0 = ((argk, None), evs) \<Longrightarrow>
   evs = map (\<lambda>j. CallBefore (i + j)
                 (fst (fst (executeBeforePipeline_range i (take j hs) ctx arg0)))) [0..<length hs]"
proof (induction hs arbitrary: i arg0 evs)
  case Nil
  then show ?case by simp
next
  case (Cons h hs)
  obtain res' err' where h: "h ctx arg0 = (res', err')" by (cases "h ctx arg0")
  from Cons.prems h have none: "err' = None"
    by (cases err') (auto split: prod.splits)
  obtain r1 evs1 where rest: "executeBeforePipeline_range (Suc i) hs ctx res' = (r1, evs1)"
    by (cases "executeBeforePipeline_range (Suc i) hs ctx res'")
  from Cons.prems h none rest have r1: "r1 = (argk, None)" and evs: "evs = CallBefore i arg0 # evs1"
    by auto
  have upt: "[0..<Suc (length hs)] = 0 # map Suc [0..<length hs]"
    by (simp add: upt_conv_Cons map_Suc_upt del: upt_Suc)
  have step: "\<And>j. fst (fst (executeBeforePipeline_range i (take (Suc j) (h # hs)) ctx arg0))
      = fst (fst (executeBeforePipeline_range (Suc i) (take j hs) ctx res'))"
    by (simp add: h none split: prod.splits)
  show ?case
    unfolding length_Cons upt evs
    using Cons.IH [OF rest [unfolded r1]] by (simp add: comp_def step del: take_Suc_Cons)
qed

lemma processHandlerMessage_abort:
  assumes "handlers E (Route_Short rt) = Some h"
    and "getMsgType E iface = Inr t"
    and "MessageType h \<noteq> t" and "t = Request"
  shows "processHandlerMessage E ctx0 rt ser session data iface remote
           = (Inl (NewError E ErrRequestOnNotify (ErrBadRequestCode E)), [])"
  using assms by (simp add: processHandlerMessage_def getHandler_def ValidateMessageType_def)

lemma processHandlerMessage_reach:
  assumes "handlers E (Route_Short rt) = Some h"
    and "getMsgType E iface = Inr t"
    and "\<not> (MessageType h \<noteq> t \<and> t = Request)"
    and "unmarshalHandlerArg h ser data = Inr arg0"
  shows "processHandlerMessage E ctx0 rt ser session data iface remote =
     (let ctx = \<lparr>parent = ctx0, SessionCtxKey = session,
                 LoggerCtxKey = (Route_String rt, UID session)\<rparr>;
          evs0 = (if MessageType h \<noteq> t \<and> t = Notify
                  then [Warnf_invalid_message_type ErrNotifyOnRequest] else [])
      in case executeBeforePipeline E ctx arg0 of
        ((arg, Some err), evs1) \<Rightarrow> (Inl err, evs0 @ evs1)
      | ((arg, None), evs1) \<Rightarrow>
      (let args = (if arg \<noteq> Nil then [arg] else []) in
       case Handler.Method h ctx args of
        (resp0, err0) \<Rightarrow>
      (let resp1 = (if remote \<and> t = Notify then Bytes ack else resp0) in
       case executeAfterPipeline E ctx resp1 err0 of
        ((resp, Some err), evs2) \<Rightarrow>
          (Inl err, evs0 @ evs1 @ [Debugf_SID_Data (Session.ID session) data, CallMethod args] @ evs2)
      | ((resp, None), evs2) \<Rightarrow>
      (case serializeReturn E ser resp of
        (r, evs3) \<Rightarrow>
          (r, evs0 @ evs1 @ [Debugf_SID_Data (Session.ID session) data, CallMethod args]
                @ evs2 @ evs3)))))"
  using assms
  by (auto simp: processHandlerMessage_def getHandler_def ValidateMessageType_def Let_def
           split: prod.splits option.splits)

lemma processHandlerMessage_decode_error:
  assumes "handlers E (Route_Short rt) = Some h"
    and "getMsgType E iface = Inr t"
    and "\<not> (MessageType h \<noteq> t \<and> t = Request)"
    and "unmarshalHandlerArg h ser data = Inl err"
  shows "processHandlerMessage E ctx0 rt ser session data iface remote =
     (Inl (NewError E err (ErrBadRequestCode E)),
      if MessageType h \<noteq> t \<and> t = Notify
      then [Warnf_invalid_message_type ErrNotifyOnRequest] else [])"
  using assms
  by (auto simp: processHandlerMessage_def getHandler_def ValidateMessageType_def Let_def
           split: prod.splits option.splits)

lemma processHandlerMessage_declared_kind:
  assumes found: "handlers E (Route_Short rt) = Some h"
    and mt: "getMsgType E iface = Inr t"
    and go: "\<not> (MessageType h \<noteq> t \<and> t = Request)"
  shows "processHandlerMessage E ctx0 rt ser session data iface remote =
     (case processHandlerMessage
             (E\<lparr>handlers := (handlers E)(Route_Short rt \<mapsto> h\<lparr>MessageType := t\<rparr>)\<rparr>)
             ctx0 rt ser session data iface remote of
        (r, evs) \<Rightarrow>
          (r, (if MessageType h \<noteq> t \<and> t = Notify
               then [Warnf_invalid_message_type ErrNotifyOnRequest] else []) @ evs))"
proof -
  let ?h = "h\<lparr>MessageType := t\<rparr>"
  let ?E = "E\<lparr>handlers := (handlers E)(Route_Short rt \<mapsto> ?h)\<rparr>"
  have found': "handlers ?E (Route_Short rt) = Some ?h" by simp
  have mt': "getMsgType ?E iface = Inr t" using mt by (cases iface) (simp_all add: getMsgType_def)
  have go': "\<not> (MessageType ?h \<noteq> t \<and> t = Request)" by simp
  have un: "unmarshalHandlerArg ?h ser data = unmarshalHandlerArg h ser data"
    by (simp add: unmarshalHandlerArg_def)
  have before: "\<And>c a. executeBeforePipeline ?E c a = executeBeforePipeline E c a"
    by (simp add: executeBeforePipeline_def)
  have after: "\<And>c a e. executeAfterPipeline ?E c a e = executeAfterPipeline E c a e"
    by (simp add: executeAfterPipeline_def)
  have ser: "\<And>v. serializeReturn ?E ser v = serializeReturn E ser v"
    by (simp add: serializeReturn_def split: sum.splits)
  let ?ctx = "\<lparr>parent = ctx0, SessionCtxKey = session,
                LoggerCtxKey = (Route_String rt, UID session)\<rparr>"
  show ?thesis
  proof (cases "unmarshalHandlerArg h ser data")
    case (Inl err)
    from Inl un have "unmarshalHandlerArg ?h ser data = Inl err" by simp
    from processHandlerMessage_decode_error [OF found' mt' go' this]
      processHandlerMessage_decode_error [OF found mt go Inl]
    show ?thesis by simp
  next
    case (Inr arg0)
    from Inr un have un': "unmarshalHandlerArg ?h ser data = Inr arg0" by simp
    note L = processHandlerMessage_reach [OF found mt go Inr, of ctx0 session remote]
    note R = processHandlerMessage_reach [OF found' mt' go' un', of ctx0 session remote]
    obtain arg berr evs1 where b: "executeBeforePipeline E ?ctx arg0 = ((arg, berr), evs1)"
      by (metis surj_pair)
    show ?thesis
    proof (cases berr)
      case (Some e)
      with b show ?thesis unfolding L R by (simp add: before)
    next
      case None
      obtain resp0 err0 where m:
        "Handler.Method h ?ctx (if arg \<noteq> Nil then [arg] else []) = (resp0, err0)"
        by (metis surj_pair)
      obtain resp aerr evs2 where a:
        "executeAfterPipeline E ?ctx (if remote \<and> t = Notify then Bytes ack else resp0) err0
           = ((resp, aerr), evs2)"
        by (metis surj_pair)
      obtain r evs3 where s: "serializeReturn E ser resp = (r, evs3)"
        by (metis surj_pair)
      show ?thesis
      proof (cases aerr)
        case (Some e)
        with b None m a show ?thesis unfolding L R
          by (simp add: before after Let_def)
      next
        case None': None
        with b None m a s show ?thesis unfolding L R
          by (simp add: before after ser Let_def)
      qed
    qed
  qed
qed

text \<open>
  C2. For every handler and every incoming message kind: when the handler's declared kind
  is Notify and a Request arrives, \<open>ValidateMessageType\<close> gives \<open>ErrRequestOnNotify\<close> with
  \<open>exitOnError = true\<close>, and the dispatch returns the error at once, with no hook and no
  handler called (the list of events is empty). When the declared kind is Request and a
  Notify arrives, it gives \<open>ErrNotifyOnRequest\<close> with \<open>exitOnError = false\<close>; the dispatch
  is then the dispatch of the same message to the same handler declared Notify, with the
  one warning in front, and the handler is invoked as soon as the payload decodes and the
  pre-hooks pass.
\<close>

theorem kind_mismatch_policy:
  assumes found: "handlers E (Route_Short rt) = Some h"
    and ctx: "ctx = \<lparr>parent = ctx0, SessionCtxKey = session,
                       LoggerCtxKey = (Route_String rt, UID session)\<rparr>"
  shows
   "(MessageType h = Notify \<and> getMsgType E iface = Inr Request \<longrightarrow>
       ValidateMessageType h Request = (True, Some ErrRequestOnNotify)
       \<and> processHandlerMessage E ctx0 rt ser session data iface remote
           = (Inl (NewError E ErrRequestOnNotify (ErrBadRequestCode E)), []))
    \<and> (MessageType h = Request \<and> getMsgType E iface = Inr Notify \<longrightarrow>
       ValidateMessageType h Notify = (False, Some ErrNotifyOnRequest)
       \<and> processHandlerMessage E ctx0 rt ser session data iface remote
           = (case processHandlerMessage
                     (E\<lparr>handlers := (handlers E)(Route_Short rt \<mapsto> h\<lparr>MessageType := Notify\<rparr>)\<rparr>)
                     ctx0 rt ser session data iface remote of
                (r, evs) \<Rightarrow> (r, Warnf_invalid_message_type ErrNotifyOnRequest # evs))
       \<and> (\<forall>arg0 arg evs1.
             unmarshalHandlerArg h ser data = Inr arg0
             \<and> executeBeforePipeline E ctx arg0 = ((arg, None), evs1) \<longrightarrow>
             CallMethod (if arg \<noteq> Nil then [arg] else [])
               \<in> set (snd (processHandlerMessage E ctx0 rt ser session data iface remote))))"
proof (intro conjI impI allI)
  assume "MessageType h = Notify \<and> getMsgType E iface = Inr Request"
  then show "ValidateMessageType h Request = (True, Some ErrRequestOnNotify)"
    by (simp add: ValidateMessageType_def Type_distinct)
next
  assume a: "MessageType h = Notify \<and> getMsgType E iface = Inr Request"
  then have "MessageType h \<noteq> Request" by (simp add: Type_distinct)
  from processHandlerMessage_abort [OF found _ this] a
  show "processHandlerMessage E ctx0 rt ser session data iface remote
          = (Inl (NewError E ErrRequestOnNotify (ErrBadRequestCode E)), [])"
    by simp
next
  assume "MessageType h = Request \<and> getMsgType E iface = Inr Notify"
  then show "ValidateMessageType h Notify = (False, Some ErrNotifyOnRequest)"
    by (simp add: ValidateMessageType_def Type_distinct)
next
  assume a: "MessageType h = Request \<and> getMsgType E iface = Inr Notify"
  then have go: "\<not> (MessageType h \<noteq> Notify \<and> Notify = Request)" by (simp add: Type_distinct)
  from a have mt: "getMsgType E iface = Inr Notify" by simp
  from processHandlerMessage_declared_kind [OF found mt go, of ctx0 ser session "data" remote] a
  show "processHandlerMessage E ctx0 rt ser session data iface remote
          = (case processHandlerMessage
                    (E\<lparr>handlers := (handlers E)(Route_Short rt \<mapsto> h\<lparr>MessageType := Notify\<rparr>)\<rparr>)
                    ctx0 rt ser session data iface remote of
               (r, evs) \<Rightarrow> (r, Warnf_invalid_message_type ErrNotifyOnRequest # evs))"
    by (simp add: Type_distinct)
next
  fix arg0 arg evs1
  assume a: "MessageType h = Request \<and> getMsgType E iface = Inr Notify"
    and b: "unmarshalHandlerArg h ser data = Inr arg0
             \<and> executeBeforePipeline E ctx arg0 = ((arg, None), evs1)"
  from a have go: "\<not> (MessageType h \<noteq> Notify \<and> Notify = Request)" by (simp add: Type_distinct)
  from a have mt: "getMsgType E iface = Inr Notify" by simp
  from b have un: "unmarshalHandlerArg h ser data = Inr arg0" by simp
  from processHandlerMessage_reach [OF found mt go un, of ctx0 session remote] b
  show "CallMethod (if arg \<noteq> Nil then [arg] else [])
          \<in> set (snd (processHandlerMessage E ctx0 rt ser session data iface remote))"
    by (simp add: ctx Let_def split: prod.splits option.splits)
qed

theorem kind_mismatch_policy_witness:
  "processHandlerMessage example_env None (example_route ''Tick'') example_serializer
       example_session [0x7B, 0x7D] (MessageTypeVal Request) False
     = (Inl (PitayaError ''PIT-400'' ''tried to request a notify route'' Map.empty), [])
   \<and> processHandlerMessage example_env None (example_route ''Join'') example_serializer
       example_session [0x7B, 0x7D] (MessageTypeVal Notify) False
     = (Inr [0x6F, 0x6B],
        [Warnf_invalid_message_type ErrNotifyOnRequest,
         Debugf_SID_Data 1 [0x7B, 0x7D], CallMethod [Ptr [0x7B, 0x7D]]])"
proof -
  have tick: "handlers example_env (Route_Short (example_route ''Tick'')) = Some Room_Tick"
    and join: "handlers example_env (Route_Short (example_route ''Join'')) = Some Room_Join"
    by (simp_all add: example_defs)
  have ctx: "example_ctx ''Join'' = \<lparr>parent = None, SessionCtxKey = example_session,
       LoggerCtxKey = (Route_String (example_route ''Join''), UID example_session)\<rparr>"
    and ctx': "example_ctx ''Tick'' = \<lparr>parent = None, SessionCtxKey = example_session,
       LoggerCtxKey = (Route_String (example_route ''Tick''), UID example_session)\<rparr>"
    by (simp_all add: example_defs)
  note t = kind_mismatch_policy [OF tick ctx', of "MessageTypeVal Request" example_serializer
      "[0x7B, 0x7D]" False]
  note j = kind_mismatch_policy [OF join ctx, of "MessageTypeVal Notify" example_serializer
      "[0x7B, 0x7D]" False]
  have 1: "processHandlerMessage example_env None (example_route ''Tick'') example_serializer
       example_session [0x7B, 0x7D] (MessageTypeVal Request) False
     = (Inl (PitayaError ''PIT-400'' ''tried to request a notify route'' Map.empty), [])"
    using t by (simp add: example_defs)
  have 2: "processHandlerMessage example_env None (example_route ''Join'') example_serializer
       example_session [0x7B, 0x7D] (MessageTypeVal Notify) False
     = (Inr [0x6F, 0x6B],
        [Warnf_invalid_message_type ErrNotifyOnRequest,
         Debugf_SID_Data 1 [0x7B, 0x7D], CallMethod [Ptr [0x7B, 0x7D]]])"
    using j by (simp add: example_defs processHandlerMessage_def getHandler_def)
  from 1 2 show ?thesis by simp
qed

text \<open>
  C3 (as amended). Injecting a Notify message for a handler registered with kind Request
  is not answered with an error by the kind check: \<open>ErrNotifyOnRequest\<close> is logged and,
  when the payload decodes and the pre-hooks pass, the handler is invoked; the dispatch
  returns what the handler, the post-hooks and the serialization produce.
\<close>

theorem notify_on_request_handler_is_dispatched:
  assumes found: "handlers E (Route_Short rt) = Some h"
    and kind: "MessageType h = Request"
    and mt: "getMsgType E iface = Inr Notify"
    and ctx: "ctx = \<lparr>parent = ctx0, SessionCtxKey = session,
                       LoggerCtxKey = (Route_String rt, UID session)\<rparr>"
    and un: "unmarshalHandlerArg h ser data = Inr arg0"
    and before: "executeBeforePipeline E ctx arg0 = ((arg, None), evs1)"
    and m: "Handler.Method h ctx (if arg \<noteq> Nil then [arg] else []) = (resp0, err0)"
    and after: "executeAfterPipeline E ctx (if remote then Bytes ack else resp0) err0
                  = ((resp, aerr), evs2)"
  shows "ValidateMessageType h Notify = (False, Some ErrNotifyOnRequest)
     \<and> fst (processHandlerMessage E ctx0 rt ser session data iface remote)
         = (case aerr of Some e \<Rightarrow> Inl e | None \<Rightarrow> fst (serializeReturn E ser resp))
     \<and> snd (processHandlerMessage E ctx0 rt ser session data iface remote)
         = Warnf_invalid_message_type ErrNotifyOnRequest # evs1
           @ [Debugf_SID_Data (Session.ID session) data,
              CallMethod (if arg \<noteq> Nil then [arg] else [])]
           @ evs2
           @ (case aerr of Some e \<Rightarrow> [] | None \<Rightarrow> snd (serializeReturn E ser resp))"
proof -
  from kind have go: "\<not> (MessageType h \<noteq> Notify \<and> Notify = Request)"
    by (simp add: Type_distinct)
  have v: "ValidateMessageType h Notify = (False, Some ErrNotifyOnRequest)"
    using kind by (simp add: ValidateMessageType_def Type_distinct)
  note R = processHandlerMessage_reach [OF found mt go un, of ctx0 session remote]
  show ?thesis
  proof (cases aerr)
    case (Some e)
    with before m after kind v show ?thesis unfolding R
      by (simp add: ctx [symmetric] Let_def Type_distinct)
  next
    case None
    with before m after kind v show ?thesis unfolding R
      by (simp add: ctx [symmetric] Let_def Type_distinct split: prod.splits)
  qed
qed

theorem notify_on_request_handler_is_dispatched_witness:
  "MessageType Room_Join = Request
   \<and> processHandlerMessage example_env None (example_route ''Join'') example_serializer
       example_session [0x7B, 0x7D] (MessageTypeVal Notify) False
     = (Inr [0x6F, 0x6B],
        [Warnf_invalid_message_type ErrNotifyOnRequest,
         Debugf_SID_Data 1 [0x7B, 0x7D], CallMethod [Ptr [0x7B, 0x7D]]])"
proof -
  have found: "handlers example_env (Route_Short (example_route ''Join'')) = Some Room_Join"
    and kind: "MessageType Room_Join = Request"
    and mt: "getMsgType example_env (MessageTypeVal Notify) = Inr Notify"
    and ctx: "example_ctx ''Join'' = \<lparr>parent = None, SessionCtxKey = example_session,
       LoggerCtxKey = (Route_String (example_route ''Join''), UID example_session)\<rparr>"
    and un: "unmarshalHandlerArg Room_Join example_serializer [0x7B, 0x7D] = Inr (Ptr [0x7B, 0x7D])"
    and before: "executeBeforePipeline example_env (example_ctx ''Join'') (Ptr [0x7B, 0x7D])
                   = ((Ptr [0x7B, 0x7D], None), [])"
    and m: "Handler.Method Room_Join (example_ctx ''Join'')
              (if Ptr [0x7B, 0x7D] \<noteq> Nil then [Ptr [0x7B, 0x7D]] else []) = (Ptr [0x6F, 0x6B], None)"
    and after: "executeAfterPipeline example_env (example_ctx ''Join'')
                  (if False then Bytes ack else Ptr [0x6F, 0x6B]) None
                  = ((Ptr [0x6F, 0x6B], None), [])"
    by (simp_all add: example_defs)
  from notify_on_request_handler_is_dispatched [OF found kind mt ctx un before m after] kind
  show ?thesis
    by (simp add: example_defs prod_eq_iff)
qed

text \<open>
  C3 as stated fails: a Notify injected for the Request handler \<open>Room.Join\<close> is answered
  with the handler's payload, not with an error, and the handler has been invoked.
\<close>

theorem notify_on_request_handler_counterexample:
  "handlers example_env (Route_Short (example_route ''Join'')) = Some Room_Join
   \<and> MessageType Room_Join = Request
   \<and> fst (processHandlerMessage example_env None (example_route ''Join'') example_serializer
       example_session [0x7B, 0x7D] (MessageTypeVal Notify) False) = Inr [0x6F, 0x6B]
   \<and> CallMethod [Ptr [0x7B, 0x7D]]
        \<in> set (snd (processHandlerMessage example_env None (example_route ''Join'')
                  example_serializer example_session [0x7B, 0x7D] (MessageTypeVal Notify) False))"
  by (simp add: example_defs processHandlerMessage_def getHandler_def)

text \<open>
  C5. For a dispatch with \<open>remote = true\<close> whose incoming kind is Notify, when the handler
  is reached (the payload decodes and the pre-hooks pass) and returns a nil error, and the
  post-hooks leave the pair \<open>(ack, nil)\<close> as it is, the payload of the response is the
  three bytes \<open>ack\<close>, whatever the handler's own result \<open>resp0\<close> was.
\<close>

theorem remote_notify_ack:
  assumes found: "handlers E (Route_Short rt) = Some h"
    and mt: "getMsgType E iface = Inr Notify"
    and ctx: "ctx = \<lparr>parent = ctx0, SessionCtxKey = session,
                       LoggerCtxKey = (Route_String rt, UID session)\<rparr>"
    and un: "unmarshalHandlerArg h ser data = Inr arg0"
    and before: "fst (executeBeforePipeline E ctx arg0) = (arg, None)"
    and m: "Handler.Method h ctx (if arg \<noteq> Nil then [arg] else []) = (resp0, None)"
    and after: "fst (executeAfterPipeline E ctx (Bytes ack) None) = (Bytes ack, None)"
  shows "fst (processHandlerMessage E ctx0 rt ser session data iface True) = Inr ack
     \<and> ack = [0x61, 0x63, 0x6B]"
proof -
  have go: "\<not> (MessageType h \<noteq> Notify \<and> Notify = Request)"
    by (simp add: Type_distinct)
  note R = processHandlerMessage_reach [OF found mt go un, of ctx0 session True]
  obtain evs1 where b: "executeBeforePipeline E ctx arg0 = ((arg, None), evs1)"
    using before by (cases "executeBeforePipeline E ctx arg0") simp
  obtain evs2 where a: "executeAfterPipeline E ctx (Bytes ack) None = ((Bytes ack, None), evs2)"
    using after by (cases "executeAfterPipeline E ctx (Bytes ack) None") simp
  have s: "serializeReturn E ser (Bytes ack) = (Inr ack, [])"
    by (simp add: serializeReturn_def SerializeOrRaw_def)
  from b m a s show ?thesis unfolding R
    by (simp add: ctx [symmetric] Let_def ack_def)
qed

theorem remote_notify_ack_witness:
  "fst (processHandlerMessage example_env None (example_route ''Tick'') example_serializer
          example_session [] (MessageTypeVal Notify) True) = Inr [0x61, 0x63, 0x6B]"
proof -
  have found: "handlers example_env (Route_Short (example_route ''Tick'')) = Some Room_Tick"
    and mt: "getMsgType example_env (MessageTypeVal Notify) = Inr Notify"
    and ctx: "example_ctx ''Tick'' = \<lparr>parent = None, SessionCtxKey = example_session,
       LoggerCtxKey = (Route_String (example_route ''Tick''), UID example_session)\<rparr>"
    and un: "unmarshalHandlerArg Room_Tick example_serializer [] = Inr Nil"
    and before: "fst (executeBeforePipeline example_env (example_ctx ''Tick'') Nil) = (Nil, None)"
    and m: "Handler.Method Room_Tick (example_ctx ''Tick'')
              (if (Nil :: bytes val) \<noteq> Nil then [Nil] else []) = (Nil, None)"
    and after: "fst (executeAfterPipeline example_env (example_ctx ''Tick'') (Bytes ack) None)
                  = (Bytes ack, None)"
    by (simp_all add: example_defs)
  from remote_notify_ack [OF found mt ctx un before m after]
  show ?thesis by simp
qed

text \<open>
  C6. Once the handler has been invoked, with any result and any error, the post-hook
  chain is run to its end: hook number \<open>j\<close> is called with the pair that the hooks before
  it have produced from the handler's \<open>(result, error)\<close>, and the outcome of the dispatch
  is decided by the pair after the last hook: its error, when there is one, is what the
  dispatch returns (so the error of the last post-hook replaces the handler's), and
  otherwise its result is serialized.
\<close>

theorem post_hooks_run_after_handler_error:
  assumes found: "handlers E (Route_Short rt) = Some h"
    and mt: "getMsgType E iface = Inr t"
    and go: "\<not> (MessageType h \<noteq> t \<and> t = Request)"
    and ctx: "ctx = \<lparr>parent = ctx0, SessionCtxKey = session,
                       LoggerCtxKey = (Route_String rt, UID session)\<rparr>"
    and un: "unmarshalHandlerArg h ser data = Inr arg0"
    and before: "executeBeforePipeline E ctx arg0 = ((arg, None), evs1)"
    and m: "Handler.Method h ctx (if arg \<noteq> Nil then [arg] else []) = (resp0, err0)"
    and resp1: "resp1 = (if remote \<and> t = Notify then Bytes ack else resp0)"
    and final: "final = foldl (\<lambda>p hook. hook ctx (fst p) (snd p)) (resp1, err0) (AfterHandler E)"
  shows "executeAfterPipeline E ctx resp1 err0
           = (final,
              map (\<lambda>j. CallAfter j
                    (fst (foldl (\<lambda>p hook. hook ctx (fst p) (snd p)) (resp1, err0)
                            (take j (AfterHandler E))))
                    (snd (foldl (\<lambda>p hook. hook ctx (fst p) (snd p)) (resp1, err0)
                            (take j (AfterHandler E)))))
                [0..<length (AfterHandler E)])
     \<and> fst (processHandlerMessage E ctx0 rt ser session data iface remote)
         = (case snd final of Some e \<Rightarrow> Inl e
            | None \<Rightarrow> fst (serializeReturn E ser (fst final)))
     \<and> (\<exists>evs0 evs3. snd (processHandlerMessage E ctx0 rt ser session data iface remote)
           = evs0 @ evs1
             @ [Debugf_SID_Data (Session.ID session) data,
                CallMethod (if arg \<noteq> Nil then [arg] else [])]
             @ snd (executeAfterPipeline E ctx resp1 err0) @ evs3)
     \<and> (\<forall>hooks hook. AfterHandler E = hooks @ [hook] \<longrightarrow>
           final = hook ctx (fst (foldl (\<lambda>p hook. hook ctx (fst p) (snd p)) (resp1, err0) hooks))
                            (snd (foldl (\<lambda>p hook. hook ctx (fst p) (snd p)) (resp1, err0) hooks)))"
proof -
  have a: "executeAfterPipeline E ctx resp1 err0
           = (final,
              map (\<lambda>j. CallAfter j
                    (fst (foldl (\<lambda>p hook. hook ctx (fst p) (snd p)) (resp1, err0)
                            (take j (AfterHandler E))))
                    (snd (foldl (\<lambda>p hook. hook ctx (fst p) (snd p)) (resp1, err0)
                            (take j (AfterHandler E)))))
                [0..<length (AfterHandler E)])"
    unfolding executeAfterPipeline_def final
    by (simp add: executeAfterPipeline_range_fold)
  note R = processHandlerMessage_reach [OF found mt go un, of ctx0 session remote]
  obtain r evs3 where s: "serializeReturn E ser (fst final) = (r, evs3)"
    by (metis surj_pair)
  obtain fr fe where f: "final = (fr, fe)" by (metis surj_pair)
  have res: "fst (processHandlerMessage E ctx0 rt ser session data iface remote)
         = (case snd final of Some e \<Rightarrow> Inl e
            | None \<Rightarrow> fst (serializeReturn E ser (fst final)))"
    unfolding R using before m a [unfolded f] s f resp1
    by (cases fe) (simp_all add: ctx [symmetric] Let_def)
  have evs: "\<exists>evs0 evs3. snd (processHandlerMessage E ctx0 rt ser session data iface remote)
           = evs0 @ evs1
             @ [Debugf_SID_Data (Session.ID session) data,
                CallMethod (if arg \<noteq> Nil then [arg] else [])]
             @ snd (executeAfterPipeline E ctx resp1 err0) @ evs3"
  proof (cases fe)
    case None
    have "snd (processHandlerMessage E ctx0 rt ser session data iface remote)
           = (if MessageType h \<noteq> t \<and> t = Notify
                  then [Warnf_invalid_message_type ErrNotifyOnRequest] else []) @ evs1
             @ [Debugf_SID_Data (Session.ID session) data,
                CallMethod (if arg \<noteq> Nil then [arg] else [])]
             @ snd (executeAfterPipeline E ctx resp1 err0) @ evs3"
      unfolding R using before m a [unfolded f] s f resp1 None
      by (simp add: ctx [symmetric] Let_def)
    then show ?thesis by blast
  next
    case (Some e)
    have "snd (processHandlerMessage E ctx0 rt ser session data iface remote)
           = (if MessageType h \<noteq> t \<and> t = Notify
                  then [Warnf_invalid_message_type ErrNotifyOnRequest] else []) @ evs1
             @ [Debugf_SID_Data (Session.ID session) data,
                CallMethod (if arg \<noteq> Nil then [arg] else [])]
             @ snd (executeAfterPipeline E ctx resp1 err0) @ []"
      unfolding R using before m a [unfolded f] f resp1 Some
      by (simp add: ctx [symmetric] Let_def)
    then show ?thesis by blast
  qed
  have last: "\<forall>hooks hook. AfterHandler E = hooks @ [hook] \<longrightarrow>
           final = hook ctx (fst (foldl (\<lambda>p hook. hook ctx (fst p) (snd p)) (resp1, err0) hooks))
                            (snd (foldl (\<lambda>p hook. hook ctx (fst p) (snd p)) (resp1, err0) hooks))"
    by (simp add: final)
  from a res evs last show ?thesis by blast
qed

theorem post_hooks_run_after_handler_error_witness:
  "processHandlerMessage (example_env\<lparr>AfterHandler := [example_post_hook]\<rparr>) None
       (example_route ''Fail'') example_serializer example_session [0x01]
       (MessageTypeVal Request) False
     = (Inl (OtherError ''seen by post-hook''),
        [Debugf_SID_Data 1 [0x01], CallMethod [Bytes [0x01]],
         CallAfter 0 Nil (Some (OtherError ''room is full''))])"
proof -
  let ?E = "example_env\<lparr>AfterHandler := [example_post_hook]\<rparr>"
  have found: "handlers ?E (Route_Short (example_route ''Fail'')) = Some Room_Fail"
    and mt: "getMsgType ?E (MessageTypeVal Request) = Inr Request"
    and go: "\<not> (MessageType Room_Fail \<noteq> Request \<and> Request = Request)"
    and ctx: "example_ctx ''Fail'' = \<lparr>parent = None, SessionCtxKey = example_session,
       LoggerCtxKey = (Route_String (example_route ''Fail''), UID example_session)\<rparr>"
    and un: "unmarshalHandlerArg Room_Fail example_serializer [0x01] = Inr (Bytes [0x01])"
    and before: "executeBeforePipeline ?E (example_ctx ''Fail'') (Bytes [0x01])
                   = ((Bytes [0x01], None), [])"
    and m: "Handler.Method Room_Fail (example_ctx ''Fail'')
              (if Bytes [0x01] \<noteq> (Nil :: bytes val) then [Bytes [0x01]] else [])
              = (Nil, Some (OtherError ''room is full''))"
    and resp1: "(Nil :: bytes val) = (if False \<and> Request = Notify then Bytes ack else Nil)"
    and final: "(Nil, Some (OtherError ''seen by post-hook''))
         = foldl (\<lambda>p hook. hook (example_ctx ''Fail'') (fst p) (snd p))
             (Nil, Some (OtherError ''room is full'')) (AfterHandler ?E)"
    by (simp_all add: example_defs example_post_hook_def)
  from post_hooks_run_after_handler_error [OF found mt go ctx un before m resp1 final]
  have "fst (processHandlerMessage ?E None (example_route ''Fail'') example_serializer
          example_session [0x01] (MessageTypeVal Request) False)
        = Inl (OtherError ''seen by post-hook'')"
    by simp
  moreover have "snd (processHandlerMessage ?E None (example_route ''Fail'') example_serializer
          example_session [0x01] (MessageTypeVal Request) False)
        = [Debugf_SID_Data 1 [0x01], CallMethod [Bytes [0x01]],
           CallAfter 0 Nil (Some (OtherError ''room is full''))]"
    by (simp add: example_defs example_post_hook_def processHandlerMessage_def getHandler_def)
  ultimately show ?thesis by (simp add: prod_eq_iff)
qed

text \<open>
  C7. When the first \<open>k\<close> pre-hooks pass and hook number \<open>k\<close> returns the error \<open>e\<close>, the
  chain has called the hooks \<open>0, \<dots>, k\<close> in this order and none after them, the handler is
  not invoked, and the dispatch returns \<open>e\<close> itself.
\<close>

theorem pre_hook_error_stops_the_dispatch:
  assumes found: "handlers E (Route_Short rt) = Some h"
    and mt: "getMsgType E iface = Inr t"
    and go: "\<not> (MessageType h \<noteq> t \<and> t = Request)"
    and ctx: "ctx = \<lparr>parent = ctx0, SessionCtxKey = session,
                       LoggerCtxKey = (Route_String rt, UID session)\<rparr>"
    and un: "unmarshalHandlerArg h ser data = Inr arg0"
    and k: "k < length (BeforeHandler E)"
    and pass: "executeBeforePipeline_range 0 (take k (BeforeHandler E)) ctx arg0
                 = ((argk, None), evsk)"
    and fail: "(BeforeHandler E ! k) ctx argk = (r, Some e)"
  shows "executeBeforePipeline E ctx arg0
           = ((r, Some e), evsk @ [CallBefore k argk, Debugf_broken_pipeline e])
     \<and> evsk = map (\<lambda>j. CallBefore j
                 (fst (fst (executeBeforePipeline_range 0 (take j (BeforeHandler E)) ctx arg0))))
               [0..<k]
     \<and> processHandlerMessage E ctx0 rt ser session data iface remote
         = (Inl e,
            (if MessageType h \<noteq> t \<and> t = Notify
             then [Warnf_invalid_message_type ErrNotifyOnRequest] else [])
            @ evsk @ [CallBefore k argk, Debugf_broken_pipeline e])
     \<and> (\<forall>args. CallMethod args
            \<notin> set (snd (processHandlerMessage E ctx0 rt ser session data iface remote)))
     \<and> (\<forall>j a. CallBefore j a
            \<in> set (snd (processHandlerMessage E ctx0 rt ser session data iface remote))
          \<longrightarrow> j \<le> k)"
proof -
  have b: "executeBeforePipeline E ctx arg0
           = ((r, Some e), evsk @ [CallBefore k argk, Debugf_broken_pipeline e])"
    unfolding executeBeforePipeline_def
    using executeBeforePipeline_range_stop [OF k pass fail] by simp
  have "evsk = map (\<lambda>j. CallBefore (0 + j)
                 (fst (fst (executeBeforePipeline_range 0 (take j (take k (BeforeHandler E))) ctx arg0))))
               [0..<length (take k (BeforeHandler E))]"
    by (rule executeBeforePipeline_range_pass [OF pass])
  with k have evsk: "evsk = map (\<lambda>j. CallBefore j
                 (fst (fst (executeBeforePipeline_range 0 (take j (BeforeHandler E)) ctx arg0))))
               [0..<k]"
    by (simp add: min_def)
  have p: "processHandlerMessage E ctx0 rt ser session data iface remote
         = (Inl e,
            (if MessageType h \<noteq> t \<and> t = Notify
             then [Warnf_invalid_message_type ErrNotifyOnRequest] else [])
            @ evsk @ [CallBefore k argk, Debugf_broken_pipeline e])"
    unfolding processHandlerMessage_reach [OF found mt go un, of ctx0 session remote]
    using b by (simp add: ctx [symmetric] Let_def)
  have nocall: "\<forall>args. CallMethod args
            \<notin> set (snd (processHandlerMessage E ctx0 rt ser session data iface remote))"
    unfolding p by (subst evsk) auto
  have upto: "\<forall>j a. CallBefore j a
            \<in> set (snd (processHandlerMessage E ctx0 rt ser session data iface remote))
          \<longrightarrow> j \<le> k"
    unfolding p by (subst evsk) auto
  from b evsk p nocall upto show ?thesis by blast
qed

theorem pre_hook_error_stops_the_dispatch_witness:
  "processHandlerMessage
       (example_env\<lparr>BeforeHandler := [example_pre_hook_pass, example_pre_hook_fail, example_pre_hook_pass]\<rparr>)
       None (example_route ''Join'') example_serializer example_session [0x7B, 0x7D]
       (MessageTypeVal Request) False
     = (Inl (OtherError ''not logged in''),
        [CallBefore 0 (Ptr [0x7B, 0x7D]), CallBefore 1 (Ptr [0x7B, 0x7D]),
         Debugf_broken_pipeline (OtherError ''not logged in'')])"
proof -
  let ?E = "example_env\<lparr>BeforeHandler := [example_pre_hook_pass, example_pre_hook_fail, example_pre_hook_pass]\<rparr>"
  have found: "handlers ?E (Route_Short (example_route ''Join'')) = Some Room_Join"
    and mt: "getMsgType ?E (MessageTypeVal Request) = Inr Request"
    and go: "\<not> (MessageType Room_Join \<noteq> Request \<and> Request = Request)"
    and ctx: "example_ctx ''Join'' = \<lparr>parent = None, SessionCtxKey = example_session,
       LoggerCtxKey = (Route_String (example_route ''Join''), UID example_session)\<rparr>"
    and un: "unmarshalHandlerArg Room_Join example_serializer [0x7B, 0x7D] = Inr (Ptr [0x7B, 0x7D])"
    and k: "Suc 0 < length (BeforeHandler ?E)"
    and pass: "executeBeforePipeline_range 0 (take (Suc 0) (BeforeHandler ?E)) (example_ctx ''Join'')
                 (Ptr [0x7B, 0x7D])
                 = ((Ptr [0x7B, 0x7D], None), [CallBefore 0 (Ptr [0x7B, 0x7D])])"
    and fail: "(BeforeHandler ?E ! Suc 0) (example_ctx ''Join'') (Ptr [0x7B, 0x7D])
                 = (Ptr [0x7B, 0x7D], Some (OtherError ''not logged in''))"
    by (simp_all add: example_defs example_pre_hook_pass_def example_pre_hook_fail_def)
  from pre_hook_error_stops_the_dispatch [OF found mt go ctx un k pass fail]
  show ?thesis by (simp add: example_defs)
qed

text \<open>
  C10. \<open>ValidateMessageType\<close> reports an error only when the incoming type is Request or
  Notify. When the incoming type is Response or Push, it returns no error and
  \<open>exitOnError = false\<close> whatever the handler declares, and the dispatch is the same, result
  and events, as for the same handler declared with the incoming type.
\<close>

theorem validate_ignores_response_and_push:
  "(snd (ValidateMessageType h t) \<noteq> None \<longrightarrow> t = Request \<or> t = Notify)
   \<and> (t = Response \<or> t = Push \<longrightarrow> ValidateMessageType h t = (False, None))
   \<and> (t = Response \<or> t = Push \<longrightarrow>
        handlers E (Route_Short rt) = Some h \<longrightarrow> getMsgType E iface = Inr t \<longrightarrow>
        processHandlerMessage E ctx0 rt ser session data iface remote
          = processHandlerMessage
              (E\<lparr>handlers := (handlers E)(Route_Short rt \<mapsto> h\<lparr>MessageType := t\<rparr>)\<rparr>)
              ctx0 rt ser session data iface remote)"
proof (intro conjI impI)
  assume "snd (ValidateMessageType h t) \<noteq> None"
  then show "t = Request \<or> t = Notify"
    by (simp add: ValidateMessageType_def split: if_splits)
next
  assume "t = Response \<or> t = Push"
  then show "ValidateMessageType h t = (False, None)"
    by (auto simp: ValidateMessageType_def Type_distinct)
next
  assume t: "t = Response \<or> t = Push"
    and found: "handlers E (Route_Short rt) = Some h"
    and mt: "getMsgType E iface = Inr t"
  from t have go: "\<not> (MessageType h \<noteq> t \<and> t = Request)" and "t \<noteq> Notify"
    by (auto simp: Type_distinct)
  with processHandlerMessage_declared_kind [OF found mt go, of ctx0 ser session "data" remote]
  show "processHandlerMessage E ctx0 rt ser session data iface remote
          = processHandlerMessage
              (E\<lparr>handlers := (handlers E)(Route_Short rt \<mapsto> h\<lparr>MessageType := t\<rparr>)\<rparr>)
              ctx0 rt ser session data iface remote"
    by simp
qed

theorem validate_ignores_response_and_push_witness:
  "ValidateMessageType Room_Join Push = (False, None)
   \<and> ValidateMessageType Room_Tick Response = (False, None)
   \<and> processHandlerMessage example_env None (example_route ''Join'') example_serializer
        example_session [0x7B, 0x7D] (MessageTypeVal Push) False
      = (Inr [0x6F, 0x6B], [Debugf_SID_Data 1 [0x7B, 0x7D], CallMethod [Ptr [0x7B, 0x7D]]])
   \<and> processHandlerMessage
        (example_env\<lparr>handlers := (handlers example_env)(''Room.Join'' \<mapsto> Room_Join\<lparr>MessageType := Push\<rparr>)\<rparr>)
        None (example_route ''Join'') example_serializer
        example_session [0x7B, 0x7D] (MessageTypeVal Push) False
      = (Inr [0x6F, 0x6B], [Debugf_SID_Data 1 [0x7B, 0x7D], CallMethod [Ptr [0x7B, 0x7D]]])"
proof -
  have found: "handlers example_env (Route_Short (example_route ''Join'')) = Some Room_Join"
    and mt: "getMsgType example_env (MessageTypeVal Push) = Inr Push"
    and short: "Route_Short (example_route ''Join'') = ''Room.Join''"
    by (simp_all add: example_defs)
  note v = validate_ignores_response_and_push [of Room_Join Push example_env "example_route ''Join''"
      "MessageTypeVal Push" None example_serializer example_session "[0x7B, 0x7D]" False]
  note w = validate_ignores_response_and_push [of Room_Tick Response]
  have 1: "processHandlerMessage example_env None (example_route ''Join'') example_serializer
        example_session [0x7B, 0x7D] (MessageTypeVal Push) False
      = (Inr [0x6F, 0x6B], [Debugf_SID_Data 1 [0x7B, 0x7D], CallMethod [Ptr [0x7B, 0x7D]]])"
    by (simp add: example_defs processHandlerMessage_def getHandler_def)
  from v found mt short 1 w show ?thesis by simp
qed

section \<open>Theorems: peer client pool\<close>

lemmas pool_defs =
  example_transport_def example_binding_def example_server_def example_pool_def
  example_message_def connect_def call_def pushToUser_def sendKick_def sessionBindRemote_def

text \<open>
  C8. When the client for the server is in the pool, the request is built, and the
  transport answers with a response whose \<open>Error\<close> field is set, \<open>Call\<close> returns an error
  and no response: the typed error with the message and the metadata of the response's
  error, and with its code, or with \<open>ErrUnknownCode\<close> when that code is empty.
\<close>

theorem Call_error_response:
  assumes "clientMap gs (Server.ID sv) = Some c"
    and "buildRequest tr ctx rpcType route session msg (server gs) = Inr req"
    and "fst (call tr c req) = Inr res"
    and "Error res = Some e"
  shows "fst (Call tr gs ctx rpcType route session msg sv) =
           Inl (PitayaError (if Code e = [] then ErrUnknownCode tr else Code e) (Msg e) (protos_Error.Metadata e))"
  using assms by (auto simp: Call_def split: prod.splits sum.splits)

theorem Call_error_response_witness:
  "fst (Call example_transport example_pool () 0 (example_route ''Join'') example_session
          example_message (example_server ''B''))
     = Inl (PitayaError ''PIT-000'' ''x'' Map.empty)"
proof -
  let ?c = "\<lparr>address = ''10.0.0.2:3434'', connected = False\<rparr>"
  let ?e = "\<lparr>Code = [], Msg = ''x'', Metadata = Map.empty\<rparr>"
  have 1: "clientMap example_pool (Server.ID (example_server ''B'')) = Some ?c"
    and 2: "buildRequest example_transport () 0 (example_route ''Join'') example_session
              example_message (server example_pool) = Inr ()"
    and 3: "fst (call example_transport ?c ()) = Inr \<lparr>Data = [], Error = Some ?e\<rparr>"
    and 4: "Error \<lparr>Data = [], Error = Some ?e\<rparr> = Some ?e"
    by (simp_all add: pool_defs)
  from Call_error_response [OF 1 2 3 4] show ?thesis
    by (simp add: example_transport_def)
qed

text \<open>
  C9. \<open>SendPush\<close> with a non-empty frontend server id does not read the binding storage
  (the outcome is the same for every binding storage) and forwards through the peer client
  of that id. With an empty id and no binding storage it returns
  \<open>ErrNoBindingStorageModule\<close>; with an empty id it takes the id from the binding storage,
  returning the error of a failed lookup. In both ways, an id with no peer client in the
  pool gives \<open>ErrNoConnectionToServer\<close>.
\<close>

theorem SendPush_frontend_resolution:
  "(Server.ID sv \<noteq> [] \<longrightarrow>
      SendPush tr (gs\<lparr>bindingStorage := bs\<rparr>) uid sv push
        = (case SendPush tr gs uid sv push of (err, gs') \<Rightarrow> (err, gs'\<lparr>bindingStorage := bs\<rparr>)))
   \<and> (Server.ID sv \<noteq> [] \<longrightarrow> clientMap gs (Server.ID sv) = Some c \<longrightarrow>
        fst (SendPush tr gs uid sv push) = fst (pushToUser tr c push))
   \<and> (Server.ID sv \<noteq> [] \<longrightarrow> clientMap gs (Server.ID sv) = None \<longrightarrow>
        SendPush tr gs uid sv push = (Some ErrNoConnectionToServer, gs))
   \<and> (Server.ID sv = [] \<longrightarrow> bindingStorage gs = None \<longrightarrow>
        SendPush tr gs uid sv push = (Some ErrNoBindingStorageModule, gs))
   \<and> (Server.ID sv = [] \<longrightarrow> bindingStorage gs = Some f \<longrightarrow> f uid (Server.Type sv) = (svID, Some err) \<longrightarrow>
        SendPush tr gs uid sv push = (Some err, gs))
   \<and> (Server.ID sv = [] \<longrightarrow> bindingStorage gs = Some f \<longrightarrow> f uid (Server.Type sv) = (svID, None) \<longrightarrow>
        clientMap gs svID = Some c \<longrightarrow>
        fst (SendPush tr gs uid sv push) = fst (pushToUser tr c push))
   \<and> (Server.ID sv = [] \<longrightarrow> bindingStorage gs = Some f \<longrightarrow> f uid (Server.Type sv) = (svID, None) \<longrightarrow>
        clientMap gs svID = None \<longrightarrow>
        SendPush tr gs uid sv push = (Some ErrNoConnectionToServer, gs))"
  by (auto simp: SendPush_def split: prod.splits option.splits)

theorem SendPush_frontend_resolution_witness:
  "SendPush example_transport example_pool ''u1'' (example_server ''C'') ()
       = (Some ErrNoConnectionToServer, example_pool)
   \<and> SendPush example_transport (example_pool\<lparr>bindingStorage := None\<rparr>) ''u1''
          (example_server []) ()
       = (Some ErrNoBindingStorageModule, example_pool\<lparr>bindingStorage := None\<rparr>)
   \<and> SendPush example_transport example_pool ''u3'' (example_server []) ()
       = (Some ErrNoConnectionToServer, example_pool)
   \<and> fst (SendPush example_transport example_pool ''u2'' (example_server ''B'') ()) = None
   \<and> fst (SendPush example_transport (example_pool\<lparr>bindingStorage := None\<rparr>) ''u2''
            (example_server ''B'') ()) = None"
proof -
  let ?c = "\<lparr>address = ''10.0.0.2:3434'', connected = False\<rparr>"
  have idC: "Server.ID (example_server ''C'') \<noteq> []"
    and idB: "Server.ID (example_server ''B'') \<noteq> []"
    and id0: "Server.ID (example_server []) = []"
    and noC: "clientMap example_pool (Server.ID (example_server ''C'')) = None"
    and noC': "clientMap example_pool ''C'' = None"
    and hasB: "clientMap example_pool (Server.ID (example_server ''B'')) = Some ?c"
    and nobs: "bindingStorage (example_pool\<lparr>bindingStorage := None\<rparr>) = None"
    and bs: "bindingStorage example_pool = Some example_binding"
    and u3: "example_binding ''u3'' (Server.Type (example_server [])) = (''C'', None)"
    and push: "fst (pushToUser example_transport ?c ()) = None"
    by (simp_all add: pool_defs)
  from SendPush_frontend_resolution [where sv = "example_server ''C''" and tr = example_transport
      and gs = example_pool and bs = None and uid = "''u1''" and push = "()" and c = ?c
      and f = example_binding and svID = "''C''" and err = ErrNotImplemented] idC noC
  have 1: "SendPush example_transport example_pool ''u1'' (example_server ''C'') ()
       = (Some ErrNoConnectionToServer, example_pool)"
    by blast
  from SendPush_frontend_resolution [where sv = "example_server []" and tr = example_transport
      and gs = "example_pool\<lparr>bindingStorage := None\<rparr>" and bs = None and uid = "''u1''"
      and push = "()" and c = ?c and f = example_binding and svID = "''C''"
      and err = ErrNotImplemented] id0 nobs
  have 2: "SendPush example_transport (example_pool\<lparr>bindingStorage := None\<rparr>) ''u1''
          (example_server []) ()
       = (Some ErrNoBindingStorageModule, example_pool\<lparr>bindingStorage := None\<rparr>)"
    by blast
  from SendPush_frontend_resolution [where sv = "example_server []" and tr = example_transport
      and gs = example_pool and bs = None and uid = "''u3''" and push = "()" and c = ?c
      and f = example_binding and svID = "''C''" and err = ErrNotImplemented] id0 bs u3 noC'
  have 3: "SendPush example_transport example_pool ''u3'' (example_server []) ()
       = (Some ErrNoConnectionToServer, example_pool)"
    by blast
  from SendPush_frontend_resolution [where sv = "example_server ''B''" and tr = example_transport
      and gs = example_pool and bs = None and uid = "''u2''" and push = "()" and c = ?c
      and f = example_binding and svID = "''C''" and err = ErrNotImplemented] idB hasB
  have "fst (SendPush example_transport example_pool ''u2'' (example_server ''B'') ())
          = fst (pushToUser example_transport ?c ())"
    by blast
  with push have 4: "fst (SendPush example_transport example_pool ''u2'' (example_server ''B'') ()) = None"
    by simp
  from SendPush_frontend_resolution [where sv = "example_server ''B''" and tr = example_transport
      and gs = example_pool and bs = None and uid = "''u2''" and push = "()" and c = ?c
      and f = example_binding and svID = "''C''" and err = ErrNotImplemented] idB
  have "SendPush example_transport (example_pool\<lparr>bindingStorage := None\<rparr>) ''u2''
            (example_server ''B'') ()
          = (case SendPush example_transport example_pool ''u2'' (example_server ''B'') () of
               (err, gs') \<Rightarrow> (err, gs'\<lparr>bindingStorage := None\<rparr>))"
    by blast
  then have "fst (SendPush example_transport (example_pool\<lparr>bindingStorage := None\<rparr>) ''u2''
            (example_server ''B'') ())
          = fst (SendPush example_transport example_pool ''u2'' (example_server ''B'') ())"
    by (simp split: prod.splits)
  with 4 have 5: "fst (SendPush example_transport (example_pool\<lparr>bindingStorage := None\<rparr>) ''u2''
            (example_server ''B'') ()) = None"
    by simp
  from 1 2 3 4 5 show ?thesis by blast
qed

text \<open>
  C4 (as amended). \<open>SendKick\<close> and \<open>BroadcastSessionBind\<close> both return
  \<open>ErrNoBindingStorageModule\<close> without a binding storage, both resolve the frontend id
  through it, and both forward through the peer client of that id when there is one.
  They differ on failure: \<open>SendKick\<close> returns the error of a failed lookup and returns
  \<open>ErrNoConnectionToServer\<close> when the id has no peer client; \<open>BroadcastSessionBind\<close>
  drops the error of the lookup and returns nil, with nothing sent, when the id is empty or
  has no peer client.
\<close>

theorem SendKick_BroadcastSessionBind_resolution:
  "(bindingStorage gs = None \<longrightarrow>
      SendKick tr gs uid serverType kick = (Some ErrNoBindingStorageModule, gs)
      \<and> BroadcastSessionBind tr gs uid = (Some ErrNoBindingStorageModule, gs))
   \<and> (bindingStorage gs = Some f \<longrightarrow> f uid serverType = (svID, Some err) \<longrightarrow>
        SendKick tr gs uid serverType kick = (Some err, gs))
   \<and> (bindingStorage gs = Some f \<longrightarrow> f uid serverType = (svID, None) \<longrightarrow> clientMap gs svID = None \<longrightarrow>
        SendKick tr gs uid serverType kick = (Some ErrNoConnectionToServer, gs))
   \<and> (bindingStorage gs = Some f \<longrightarrow> f uid serverType = (svID, None) \<longrightarrow> clientMap gs svID = Some c \<longrightarrow>
        fst (SendKick tr gs uid serverType kick) = fst (sendKick tr c kick))
   \<and> (bindingStorage gs = Some f \<longrightarrow> f uid (Server.Type (server gs)) = (fid, lookup_err) \<longrightarrow>
        fid = [] \<or> clientMap gs fid = None \<longrightarrow>
        BroadcastSessionBind tr gs uid = (None, gs))
   \<and> (bindingStorage gs = Some f \<longrightarrow> f uid (Server.Type (server gs)) = (fid, lookup_err) \<longrightarrow>
        fid \<noteq> [] \<longrightarrow> clientMap gs fid = Some c \<longrightarrow>
        fst (BroadcastSessionBind tr gs uid)
          = fst (sessionBindRemote tr c \<lparr>Uid = uid, Fid = Server.ID (server gs)\<rparr>))"
  by (auto simp: SendKick_def BroadcastSessionBind_def split: prod.splits option.splits)

theorem SendKick_BroadcastSessionBind_resolution_witness:
  "SendKick example_transport (example_pool\<lparr>bindingStorage := None\<rparr>) ''u1'' ''connector'' ()
       = (Some ErrNoBindingStorageModule, example_pool\<lparr>bindingStorage := None\<rparr>)
   \<and> BroadcastSessionBind example_transport (example_pool\<lparr>bindingStorage := None\<rparr>) ''u1''
       = (Some ErrNoBindingStorageModule, example_pool\<lparr>bindingStorage := None\<rparr>)
   \<and> SendKick example_transport example_pool ''u2'' ''connector'' ()
       = (Some (OtherError ''binding not found''), example_pool)
   \<and> BroadcastSessionBind example_transport example_pool ''u2'' = (None, example_pool)
   \<and> SendKick example_transport example_pool ''u3'' ''connector'' ()
       = (Some ErrNoConnectionToServer, example_pool)
   \<and> BroadcastSessionBind example_transport example_pool ''u3'' = (None, example_pool)"
proof -
  let ?c = "\<lparr>address = ''10.0.0.2:3434'', connected = False\<rparr>"
  have nobs: "bindingStorage (example_pool\<lparr>bindingStorage := None\<rparr>) = None"
    and bs: "bindingStorage example_pool = Some example_binding"
    and u2: "example_binding ''u2'' ''connector'' = ([], Some (OtherError ''binding not found''))"
    and u2': "example_binding ''u2'' (Server.Type (server example_pool))
                = ([], Some (OtherError ''binding not found''))"
    and u3: "example_binding ''u3'' ''connector'' = (''C'', None)"
    and u3': "example_binding ''u3'' (Server.Type (server example_pool)) = (''C'', None)"
    and noC: "clientMap example_pool ''C'' = None"
    by (simp_all add: pool_defs)
  from SendKick_BroadcastSessionBind_resolution [where gs = "example_pool\<lparr>bindingStorage := None\<rparr>"
      and tr = example_transport and uid = "''u1''" and serverType = "''connector''" and kick = "()"
      and f = example_binding and svID = "[]" and err = ErrNotImplemented and c = ?c
      and fid = "[]" and lookup_err = None] nobs
  have 1: "SendKick example_transport (example_pool\<lparr>bindingStorage := None\<rparr>) ''u1'' ''connector'' ()
       = (Some ErrNoBindingStorageModule, example_pool\<lparr>bindingStorage := None\<rparr>)
     \<and> BroadcastSessionBind example_transport (example_pool\<lparr>bindingStorage := None\<rparr>) ''u1''
       = (Some ErrNoBindingStorageModule, example_pool\<lparr>bindingStorage := None\<rparr>)"
    by blast
  from SendKick_BroadcastSessionBind_resolution [where gs = example_pool
      and tr = example_transport and uid = "''u2''" and serverType = "''connector''" and kick = "()"
      and f = example_binding and svID = "[]" and err = "OtherError ''binding not found''"
      and c = ?c and fid = "[]" and lookup_err = "Some (OtherError ''binding not found'')"]
    bs u2 u2'
  have 2: "SendKick example_transport example_pool ''u2'' ''connector'' ()
       = (Some (OtherError ''binding not found''), example_pool)
     \<and> BroadcastSessionBind example_transport example_pool ''u2'' = (None, example_pool)"
    by blast
  from SendKick_BroadcastSessionBind_resolution [where gs = example_pool
      and tr = example_transport and uid = "''u3''" and serverType = "''connector''" and kick = "()"
      and f = example_binding and svID = "''C''" and err = ErrNotImplemented
      and c = ?c and fid = "''C''" and lookup_err = None]
    bs u3 u3' noC
  have 3: "SendKick example_transport example_pool ''u3'' ''connector'' ()
       = (Some ErrNoConnectionToServer, example_pool)
     \<and> BroadcastSessionBind example_transport example_pool ''u3'' = (None, example_pool)"
    by blast
  from 1 2 3 show ?thesis by blast
qed

text \<open>
  C4 as stated fails for \<open>BroadcastSessionBind\<close>: for user \<open>u2\<close> the lookup fails and the call
  returns nil, and for user \<open>u3\<close> the lookup gives \<open>C\<close>, which has no peer client, and the call
  returns nil as well, where \<open>SendKick\<close> on the same inputs returns the two errors.
\<close>

theorem BroadcastSessionBind_silent_counterexample:
  "bindingStorage example_pool = Some example_binding
   \<and> example_binding ''u2'' (Server.Type (server example_pool))
       = ([], Some (OtherError ''binding not found''))
   \<and> fst (BroadcastSessionBind example_transport example_pool ''u2'') = None
   \<and> fst (SendKick example_transport example_pool ''u2'' ''connector'' ())
       = Some (OtherError ''binding not found'')
   \<and> example_binding ''u3'' (Server.Type (server example_pool)) = (''C'', None)
   \<and> clientMap example_pool ''C'' = None
   \<and> fst (BroadcastSessionBind example_transport example_pool ''u3'') = None
   \<and> fst (SendKick example_transport example_pool ''u3'' ''connector'' ())
       = Some ErrNoConnectionToServer"
  by (simp add: pool_defs BroadcastSessionBind_def SendKick_def)

end
